theory Spec2Isabelle
  imports Complex_Main
begin

section \<open>The lane-runner simulation core (components/World/LevelManager.tsx)\<close>

text \<open>
  A shallow embedding of the per-frame simulation step of \<^verbatim>\<open>LevelManager\<close>: the second
  \<^verbatim>\<open>useFrame\<close> callback, together with the constants and helper functions it uses.
  JavaScript numbers are modelled as mathematical reals (no rounding); the level, the lane
  count and lane indices are integers; letter indices are naturals.  Everything the callback
  reads from outside (store fields, the frame delta, the clock, the player object, the values
  returned by \<^verbatim>\<open>Math.random\<close> and \<^verbatim>\<open>uuidv4\<close>) is a field of the record \<open>Env\<close>; everything it
  dispatches or calls back is an element of the returned event list.  The effect that resets
  or prunes the registry when the status or the level changes replaces the array and mutates no
  entity; it is not part of the tick and is not modelled.
\<close>

subsection \<open>types.ts\<close>

datatype GameStatus = MENU | PLAYING | SHOP | GAME_OVER | VICTORY

datatype ObjectType =
    OBSTACLE | GEM | LETTER | SHOP_PORTAL | ALIEN | MISSILE | MAGNET | SHIELD | DRONE
  | LASER_GATE | BARRIER | SPIKE_FLOOR | TURRET | JUMP_PAD | SPEED_BOOST

type_synonym vec3 = "real \<times> real \<times> real"

abbreviation vx :: "vec3 \<Rightarrow> real" where "vx p \<equiv> fst p"
abbreviation vy :: "vec3 \<Rightarrow> real" where "vy p \<equiv> fst (snd p)"
abbreviation vz :: "vec3 \<Rightarrow> real" where "vz p \<equiv> snd (snd p)"

text \<open>
  \<^verbatim>\<open>interface GameObject\<close>.  The fields \<^verbatim>\<open>id\<close> and \<^verbatim>\<open>value\<close> are called \<open>ident\<close> and \<open>val\<close>
  here; an optional field that is absent (\<^verbatim>\<open>undefined\<close>) is \<open>None\<close>.
\<close>

record GameObject =
  ident :: string
  type :: ObjectType
  position :: vec3
  active :: bool
  val :: "string option"
  color :: "string option"
  targetIndex :: "nat option"
  points :: "real option"
  hasFired :: "bool option"
  moveDirection :: "real option"
  moveSpeed :: "real option"
  laserActive :: "bool option"

text \<open>\<^verbatim>\<open>obj.position[0]\<close> (lane axis), \<^verbatim>\<open>obj.position[1]\<close> (vertical), \<^verbatim>\<open>obj.position[2]\<close> (forward).\<close>

abbreviation pos0 :: "GameObject \<Rightarrow> real" where "pos0 obj \<equiv> vx (position obj)"
abbreviation pos1 :: "GameObject \<Rightarrow> real" where "pos1 obj \<equiv> vy (position obj)"
abbreviation pos2 :: "GameObject \<Rightarrow> real" where "pos2 obj \<equiv> vz (position obj)"

definition LANE_WIDTH :: real where "LANE_WIDTH = 2.2"
definition SPAWN_DISTANCE :: real where "SPAWN_DISTANCE = 120"
definition REMOVE_DISTANCE :: real where "REMOVE_DISTANCE = 20"

definition GEMINI_COLORS :: "string list" where
  "GEMINI_COLORS = [''#2979ff'', ''#ff1744'', ''#ffea00'', ''#2979ff'', ''#00e676'', ''#ff1744'']"

subsection \<open>Constants and helpers of LevelManager.tsx\<close>

definition OBSTACLE_HEIGHT :: real where "OBSTACLE_HEIGHT = 1.6"
definition BASE_LETTER_INTERVAL :: real where "BASE_LETTER_INTERVAL = 200"
definition MISSILE_SPEED :: real where "MISSILE_SPEED = 30"

definition getLetterInterval :: "int \<Rightarrow> real" where
  "getLetterInterval lvl = BASE_LETTER_INTERVAL * (1 + (real_of_int lvl - 1) * 0.4)"

record DifficultyConfig =
  obstacleChance :: real
  multiObstacleChance :: real
  tripleObstacleChance :: real
  droneChance :: real
  alienChance :: real
  gapChance :: real
  gemBaseValue :: real
  gemBonusValue :: real
  minGap :: real
  powerupChance :: real

definition getDifficultyConfig :: "int \<Rightarrow> DifficultyConfig" where
  "getDifficultyConfig lvl =
     \<lparr> obstacleChance = min (0.20 + real_of_int lvl * 0.05) 0.50,
       multiObstacleChance = min (0.50 + real_of_int lvl * 0.05) 0.85,
       tripleObstacleChance = min (0.80 + real_of_int lvl * 0.02) 0.95,
       droneChance = (if lvl \<ge> 2 then min (0.10 + (real_of_int lvl - 2) * 0.03) 0.25 else 0),
       alienChance = (if lvl \<ge> 2 then min (0.15 + (real_of_int lvl - 2) * 0.04) 0.35 else 0),
       gapChance = (if lvl \<ge> 4 then min (0.05 + (real_of_int lvl - 4) * 0.02) 0.15 else 0),
       gemBaseValue = 50 + (real_of_int lvl - 1) * 10,
       gemBonusValue = 100 + (real_of_int lvl - 1) * 25,
       minGap = max 10 (14 - real_of_int lvl * 0.5),
       powerupChance = min (0.05 + real_of_int lvl * 0.01) 0.12 \<rparr>"

text \<open>\<^verbatim>\<open>getRandomLane\<close>; the argument \<open>r\<close> is the value \<^verbatim>\<open>Math.random()\<close> returned.\<close>

definition getRandomLane :: "int \<Rightarrow> real \<Rightarrow> int" where
  "getRandomLane lanes r = (let mx = lanes div 2 in \<lfloor>r * real_of_int (mx * 2 + 1)\<rfloor> - mx)"

text \<open>\<^verbatim>\<open>THREE.MathUtils.lerp(x, y, t)\<close> of the three.js library: \<^verbatim>\<open>(1 - t) * x + t * y\<close>.\<close>

definition lerp :: "real \<Rightarrow> real \<Rightarrow> real \<Rightarrow> real" where
  "lerp a b t = (1 - t) * a + t * b"

text \<open>
  JavaScript's \<^verbatim>\<open>a || d\<close> on an optional number: the default is taken when the field is
  absent or zero.  On an optional string: when it is absent or empty.
\<close>

definition num_or :: "real option \<Rightarrow> real \<Rightarrow> real" where
  "num_or a d = (case a of None \<Rightarrow> d | Some v \<Rightarrow> if v = 0 then d else v)"

definition str_or :: "string option \<Rightarrow> string \<Rightarrow> string" where
  "str_or a d = (case a of None \<Rightarrow> d | Some v \<Rightarrow> if v = [] then d else v)"

subsection \<open>What a tick reads and what it emits\<close>

text \<open>
  \<open>playerObj\<close> is the world position of \<^verbatim>\<open>playerObjRef.current\<close>, or \<open>None\<close> while the
  reference is still null.  \<open>random k\<close> is the value of the \<open>k\<close>-th call of \<^verbatim>\<open>Math.random\<close>
  made by the tick outside a sort comparator, \<open>uuidv4 k\<close> the \<open>k\<close>-th identifier handed out.
  \<^verbatim>\<open>availableLanes.sort(() => Math.random() - 0.5)\<close> has an engine-defined result;
  \<open>shuffled\<close> is that result as a function of the array sorted.
\<close>

record Env =
  status :: GameStatus
  speed :: real
  level :: int
  laneCount :: int
  collectedLetters :: "nat list"
  magnetEndTime :: real
  now :: real
  delta :: real
  playerObj :: "vec3 option"
  random :: "nat \<Rightarrow> real"
  uuidv4 :: "nat \<Rightarrow> string"
  shuffled :: "int list \<Rightarrow> int list"

datatype Event =
    PlayerHit
  | ParticleBurst vec3 string
  | OpenShop
  | CollectGem real
  | CollectLetter nat
  | ActivateMagnet
  | ActivateShield
  | PlayGemCollect
  | PlayLetterCollect

definition safeDelta :: "Env \<Rightarrow> real" where
  "safeDelta env = min (delta env) 0.05"

definition dist :: "Env \<Rightarrow> real" where
  "dist env = speed env * safeDelta env"

definition playerPos :: "Env \<Rightarrow> vec3" where
  "playerPos env = (case playerObj env of None \<Rightarrow> (0, 0, 0) | Some p \<Rightarrow> p)"

definition isMagnetActive :: "Env \<Rightarrow> bool" where
  "isMagnetActive env = (now env < magnetEndTime env)"

subsection \<open>The per-entity update loop, block by block\<close>

text \<open>Standard movement; a missile moves faster than the world.\<close>

definition standardMovement :: "Env \<Rightarrow> GameObject \<Rightarrow> GameObject" where
  "standardMovement env obj =
     (let moveAmount = (if type obj = MISSILE then dist env + MISSILE_SPEED * safeDelta env
                        else dist env)
      in obj\<lparr>position := (pos0 obj, pos1 obj, pos2 obj + moveAmount)\<rparr>)"

text \<open>Magnet logic.\<close>

definition magnetLogic :: "Env \<Rightarrow> GameObject \<Rightarrow> GameObject" where
  "magnetLogic env obj =
     (if isMagnetActive env \<and> type obj = GEM \<and> active obj then
        let dx = vx (playerPos env) - pos0 obj;
            dz = vz (playerPos env) - pos2 obj;
            distToPlayer = sqrt (dx * dx + dz * dz)
        in if distToPlayer < 40 then
             let pullStrength = safeDelta env * 10
             in obj\<lparr>position := (pos0 obj + dx * pullStrength,
                                  lerp (pos1 obj) (vy (playerPos env)) pullStrength,
                                  pos2 obj + dz * pullStrength)\<rparr>
           else obj
      else obj)"

text \<open>Drone AI logic.\<close>

definition droneLogic :: "Env \<Rightarrow> GameObject \<Rightarrow> GameObject" where
  "droneLogic env obj =
     (if type obj = DRONE \<and> active obj then
        if pos2 obj < vz (playerPos env) - 5 then
          let targetX = vx (playerPos env);
              lerpSpeed = safeDelta env * 1.5
          in obj\<lparr>position := (lerp (pos0 obj) targetX lerpSpeed, pos1 obj, pos2 obj)\<rparr>
        else obj
      else obj)"

text \<open>Barrier movement logic (side to side).\<close>

definition barrierMaxX :: "Env \<Rightarrow> real" where
  "barrierMaxX env = real_of_int (laneCount env div 2) * LANE_WIDTH"

definition barrierLogic :: "Env \<Rightarrow> GameObject \<Rightarrow> GameObject" where
  "barrierLogic env obj =
     (if type obj = BARRIER \<and> active obj then
        let maxX = barrierMaxX env;
            x1 = pos0 obj + num_or (moveDirection obj) 1 * num_or (moveSpeed obj) 3 * safeDelta env
        in if x1 > maxX then
             obj\<lparr>position := (maxX, pos1 obj, pos2 obj), moveDirection := Some (- 1)\<rparr>
           else if x1 < - maxX then
             obj\<lparr>position := (- maxX, pos1 obj, pos2 obj), moveDirection := Some 1\<rparr>
           else obj\<lparr>position := (x1, pos1 obj, pos2 obj)\<rparr>
      else obj)"

text \<open>
  Turret and alien firing logic.  The result is the entity, the missiles pushed on
  \<^verbatim>\<open>newSpawns\<close> and the events dispatched; \<open>newId\<close> is the identifier \<^verbatim>\<open>uuidv4()\<close> returns
  if it is called.
\<close>

definition notFired :: "GameObject \<Rightarrow> bool" where
  "notFired obj = (hasFired obj \<noteq> Some True)"

definition missile :: "string \<Rightarrow> vec3 \<Rightarrow> string \<Rightarrow> GameObject" where
  "missile newId pos col =
     \<lparr> ident = newId, type = MISSILE, position = pos, active = True, val = None,
       color = Some col, targetIndex = None, points = None, hasFired = None,
       moveDirection = None, moveSpeed = None, laserActive = None \<rparr>"

definition turretLogic :: "string \<Rightarrow> GameObject \<Rightarrow> GameObject \<times> GameObject list \<times> Event list" where
  "turretLogic newId obj =
     (if type obj = TURRET \<and> active obj \<and> notFired obj \<and> pos2 obj > - 80 then
        (obj\<lparr>hasFired := Some True\<rparr>,
         [missile newId (pos0 obj, 0.8, pos2 obj + 2) ''#ffaa00''],
         [ParticleBurst (position obj) ''#ffaa00''])
      else (obj, [], []))"

definition alienLogic :: "string \<Rightarrow> GameObject \<Rightarrow> GameObject \<times> GameObject list \<times> Event list" where
  "alienLogic newId obj =
     (if type obj = ALIEN \<and> active obj \<and> notFired obj \<and> pos2 obj > - 90 then
        (obj\<lparr>hasFired := Some True\<rparr>,
         [missile newId (pos0 obj, 1.0, pos2 obj + 2) ''#ff0000''],
         [ParticleBurst (position obj) ''#ff00ff''])
      else (obj, [], []))"

text \<open>
  Collision detection.  The result is the entity, the \<^verbatim>\<open>keep\<close> flag, the events, and whether
  \<^verbatim>\<open>hasChanges\<close> was set.  \<open>prevZ\<close> is the forward coordinate before this tick's movement.
\<close>

definition isDamageSource :: "ObjectType \<Rightarrow> bool" where
  "isDamageSource t =
     (t = OBSTACLE \<or> t = ALIEN \<or> t = MISSILE \<or> t = DRONE \<or> t = LASER_GATE
      \<or> t = BARRIER \<or> t = SPIKE_FLOOR \<or> t = TURRET)"

definition hitDist :: "ObjectType \<Rightarrow> real" where
  "hitDist t = (if t = MAGNET \<or> t = SHIELD then 1.5 else 0.9)"

definition inZZone :: "Env \<Rightarrow> real \<Rightarrow> GameObject \<Rightarrow> bool" where
  "inZZone env prevZ obj =
     (let zThreshold = 2.0
      in prevZ < vz (playerPos env) + zThreshold \<and> pos2 obj > vz (playerPos env) - zThreshold)"

definition objBottom :: "GameObject \<Rightarrow> real" where
  "objBottom obj =
     (if type obj = OBSTACLE then 0
      else if type obj = MISSILE then 0.5
      else if type obj = DRONE then pos1 obj - 0.5
      else if type obj = LASER_GATE then 0.5
      else if type obj = BARRIER then 0
      else if type obj = SPIKE_FLOOR then 0
      else if type obj = TURRET then 0
      else pos1 obj - 0.5)"

definition objTop :: "GameObject \<Rightarrow> real" where
  "objTop obj =
     (if type obj = OBSTACLE then OBSTACLE_HEIGHT
      else if type obj = MISSILE then 1.5
      else if type obj = DRONE then pos1 obj + 0.5
      else if type obj = LASER_GATE then 1.2
      else if type obj = BARRIER then 2.5
      else if type obj = SPIKE_FLOOR then 0.8
      else if type obj = TURRET then 0.8
      else pos1 obj + 0.5)"

definition isHit :: "Env \<Rightarrow> GameObject \<Rightarrow> bool" where
  "isHit env obj =
     (let playerBottom = vy (playerPos env);
          playerTop = vy (playerPos env) + 1.8
      in playerBottom < objTop obj \<and> playerTop > objBottom obj)"

definition burstColor :: "GameObject \<Rightarrow> string" where
  "burstColor obj = (if type obj = DRONE then ''#000000'' else ''#ff4400'')"

definition collectEvents :: "GameObject \<Rightarrow> Event list" where
  "collectEvents obj =
     (if type obj = GEM then [CollectGem (num_or (points obj) 50), PlayGemCollect]
      else if type obj = LETTER \<and> targetIndex obj \<noteq> None
        then (case targetIndex obj of Some i \<Rightarrow> [CollectLetter i, PlayLetterCollect] | None \<Rightarrow> [])
      else if type obj = MAGNET then [ActivateMagnet, PlayGemCollect]
      else if type obj = SHIELD then [ActivateShield, PlayGemCollect]
      else [])"

definition collision :: "Env \<Rightarrow> real \<Rightarrow> GameObject \<Rightarrow> GameObject \<times> bool \<times> Event list \<times> bool" where
  "collision env prevZ obj =
     (if active obj then
        if type obj = SHOP_PORTAL then
          let dz = \<bar>pos2 obj - vz (playerPos env)\<bar>
          in if dz < 2 then (obj\<lparr>active := False\<rparr>, False, [OpenShop], True)
             else (obj, True, [], False)
        else if inZZone env prevZ obj then
          let dx = \<bar>pos0 obj - vx (playerPos env)\<bar>
          in if dx < hitDist (type obj) then
               if isDamageSource (type obj) then
                 if isHit env obj then
                   (obj\<lparr>active := False\<rparr>, True,
                    [PlayerHit, ParticleBurst (position obj) (burstColor obj)], True)
                 else (obj, True, [], False)
               else
                 let dy = \<bar>pos1 obj - vy (playerPos env)\<bar>
                 in if dy < 2.5 then
                      (obj\<lparr>active := False\<rparr>, True,
                       collectEvents obj @ [ParticleBurst (position obj) (str_or (color obj) ''#ffffff'')],
                       True)
                    else (obj, True, [], False)
             else (obj, True, [], False)
        else (obj, True, [], False)
      else (obj, True, [], False))"

text \<open>
  One iteration of \<^verbatim>\<open>for (const obj of currentObjects)\<close>: movement and the behaviour
  blocks in the order of the source (\<open>behaviours\<close>: the entity as the collision test sees
  it, the missiles fired, the events of firing), then collision and the removal test.
  \<open>u\<close> is the number of identifiers handed out so far.
\<close>

record Step =
  s_obj :: GameObject
  s_keep :: bool
  s_spawns :: "GameObject list"
  s_events :: "Event list"
  s_changed :: bool

definition behaviours :: "Env \<Rightarrow> nat \<Rightarrow> GameObject \<Rightarrow> GameObject \<times> GameObject list \<times> Event list" where
  "behaviours env u obj =
     (let o1 = standardMovement env obj;
          o2 = magnetLogic env o1;
          o3 = droneLogic env o2;
          o4 = barrierLogic env o3;
          (o5, sp1, ev1) = turretLogic (uuidv4 env u) o4;
          (o6, sp2, ev2) = alienLogic (uuidv4 env (u + length sp1)) o5
      in (o6, sp1 @ sp2, ev1 @ ev2))"

definition updateObject :: "Env \<Rightarrow> nat \<Rightarrow> GameObject \<Rightarrow> Step" where
  "updateObject env u obj =
     (let prevZ = pos2 obj;
          (cur, sp, ev) = behaviours env u obj;
          (o7, keep, ev3, ch) = collision env prevZ cur;
          removed = (pos2 o7 > REMOVE_DISTANCE)
      in \<lparr> s_obj = o7, s_keep = (keep \<and> \<not> removed), s_spawns = sp,
           s_events = ev @ ev3,
           s_changed = (sp \<noteq> [] \<or> ch \<or> removed) \<rparr>)"

text \<open>
  The loop.  \<open>mutated\<close> is \<^verbatim>\<open>currentObjects\<close> as the loop leaves it (every entity is updated
  in place, kept or not); \<open>emitted\<close> collects the events in dispatch order.
\<close>

record LoopState =
  mutated :: "GameObject list"
  keptObjects :: "GameObject list"
  newSpawns :: "GameObject list"
  emitted :: "Event list"
  hasChanges :: bool

definition loopInit :: LoopState where
  "loopInit = \<lparr> mutated = [], keptObjects = [], newSpawns = [], emitted = [], hasChanges = False \<rparr>"

fun updateLoop :: "Env \<Rightarrow> GameObject list \<Rightarrow> LoopState \<Rightarrow> LoopState" where
  "updateLoop env [] st = st"
| "updateLoop env (obj # rest) st =
     (let r = updateObject env (length (newSpawns st)) obj
      in updateLoop env rest
           \<lparr> mutated = mutated st @ [s_obj r],
             keptObjects = keptObjects st @ (if s_keep r then [s_obj r] else []),
             newSpawns = newSpawns st @ s_spawns r,
             emitted = emitted st @ s_events r,
             hasChanges = (hasChanges st \<or> s_changed r) \<rparr>)"

subsection \<open>Spawning logic\<close>

text \<open>
  The spawn horizon.  \<^verbatim>\<open>Math.min(...zs)\<close> on a non-empty array is a running minimum.
\<close>

definition staticObjects :: "GameObject list \<Rightarrow> GameObject list" where
  "staticObjects objs = filter (\<lambda>ob. type ob \<noteq> MISSILE \<and> type ob \<noteq> DRONE) objs"

fun math_min :: "real list \<Rightarrow> real" where
  "math_min [] = 0"
| "math_min (z # zs) = fold min zs z"

definition furthestZ :: "GameObject list \<Rightarrow> real" where
  "furthestZ objs =
     (if length (staticObjects objs) > 0 then math_min (map pos2 (staticObjects objs))
      else - 20)"

text \<open>An object literal with the fields every spawn sets; the others are absent.\<close>

definition mkObject :: "string \<Rightarrow> ObjectType \<Rightarrow> vec3 \<Rightarrow> string \<Rightarrow> GameObject" where
  "mkObject newId t pos col =
     \<lparr> ident = newId, type = t, position = pos, active = True, val = None,
       color = Some col, targetIndex = None, points = None, hasFired = None,
       moveDirection = None, moveSpeed = None, laserActive = None \<rparr>"

text \<open>Reading an array at a computed index: \<^verbatim>\<open>undefined\<close> out of range.\<close>

definition at_index :: "'a list \<Rightarrow> int \<Rightarrow> 'a option" where
  "at_index xs i = (if 0 \<le> i \<and> i < int (length xs) then Some (xs ! nat i) else None)"

definition target :: "string list" where
  "target = [''G'', ''E'', ''M'', ''I'', ''N'', ''I'']"

definition availableIndices :: "Env \<Rightarrow> nat list" where
  "availableIndices env = filter (\<lambda>i. i \<notin> set (collectedLetters env)) [0 ..< length target]"

text \<open>
  The branch \<^verbatim>\<open>if (isLetterDue)\<close>: the objects pushed and the new value of
  \<^verbatim>\<open>nextLetterDistance.current\<close>.  The lane is the first random call, the index the second.
\<close>

definition letterSpawn :: "Env \<Rightarrow> DifficultyConfig \<Rightarrow> real \<Rightarrow> real \<Rightarrow> nat \<Rightarrow> GameObject list \<times> real" where
  "letterSpawn env config spawnZ nextLetter u =
     (let lane = getRandomLane (laneCount env) (random env 0);
          avail = availableIndices env
      in if length avail > 0 then
           let chosenIndex = at_index avail \<lfloor>random env 1 * real (length avail)\<rfloor>;
               v = Option.bind chosenIndex (\<lambda>c. at_index target (int c));
               col = Option.bind chosenIndex (\<lambda>c. at_index GEMINI_COLORS (int c))
           in ([(mkObject (uuidv4 env u) LETTER (real_of_int lane * LANE_WIDTH, 1.0, spawnZ) [])
                  \<lparr> color := col, val := v, targetIndex := chosenIndex \<rparr>],
               nextLetter + getLetterInterval (level env))
         else
           ([(mkObject (uuidv4 env u) GEM (real_of_int lane * LANE_WIDTH, 1.2, spawnZ) ''#00ffff'')
               \<lparr> points := Some (gemBaseValue config) \<rparr>],
            nextLetter))"

text \<open>
  \<^verbatim>\<open>availableLanes\<close>: the lanes \<^verbatim>\<open>-maxLane .. maxLane\<close>, sorted with a random comparator.
  The store keeps the lane count between 3 and 9, so the array is never empty and the
  reads \<^verbatim>\<open>availableLanes[i]\<close> below stay in range; the model takes a prefix of the array.
\<close>

definition availableLanes :: "Env \<Rightarrow> int list" where
  "availableLanes env = (let maxLane = laneCount env div 2 in shuffled env [- maxLane .. maxLane])"

text \<open>
  The loop over the standard obstacles of one row; \<open>k\<close> counts the random calls made so
  far, \<open>u\<close> the identifiers.
\<close>

fun obstacleRow :: "Env \<Rightarrow> DifficultyConfig \<Rightarrow> real \<Rightarrow> int list \<Rightarrow> nat \<Rightarrow> nat \<Rightarrow> GameObject list" where
  "obstacleRow env config spawnZ [] k u = []"
| "obstacleRow env config spawnZ (lane # lanes) k u =
     (let laneX = real_of_int lane * LANE_WIDTH;
          obstacle = mkObject (uuidv4 env u) OBSTACLE (laneX, OBSTACLE_HEIGHT / 2, spawnZ) ''#ff0054'';
          topRoll = random env k
      in if topRoll < powerupChance config then
           let isShield = (random env (k + 1) > 0.5)
           in obstacle
              # mkObject (uuidv4 env (u + 1)) (if isShield then SHIELD else MAGNET)
                  (laneX, OBSTACLE_HEIGHT + 1.0, spawnZ) (if isShield then ''#00ffff'' else ''#d000ff'')
              # obstacleRow env config spawnZ lanes (k + 2) (u + 2)
         else if topRoll < 0.3 then
           obstacle
           # (mkObject (uuidv4 env (u + 1)) GEM (laneX, OBSTACLE_HEIGHT + 1.0, spawnZ) ''#ffd700'')
               \<lparr> points := Some (gemBonusValue config) \<rparr>
           # obstacleRow env config spawnZ lanes (k + 1) (u + 2)
         else obstacle # obstacleRow env config spawnZ lanes (k + 1) (u + 1))"

text \<open>\<^verbatim>\<open>String(n)\<close> on an integer: its decimal digits.\<close>

fun decimal :: "nat \<Rightarrow> string" where
  "decimal n = (if n < 10 then [char_of (48 + n)] else decimal (n div 10) @ [char_of (48 + n mod 10)])"

declare decimal.simps [simp del]

definition String :: "int \<Rightarrow> string" where
  "String i = (if i < 0 then CHR ''-'' # decimal (nat (- i)) else decimal (nat i))"

text \<open>
  The branch \<^verbatim>\<open>if (isObstacle)\<close>.  Random calls 0 and 1 were the skip roll and the
  obstacle-versus-item roll; \<^verbatim>\<open>obstacleRoll\<close> is call 2.
\<close>

definition obstacleSpawn :: "Env \<Rightarrow> DifficultyConfig \<Rightarrow> real \<Rightarrow> nat \<Rightarrow> GameObject list" where
  "obstacleSpawn env config spawnZ u =
     (let obstacleRoll = random env 2 in
      if level env \<ge> 4 \<and> obstacleRoll < 0.10 then
        let gateWidth = min (2 + level env div 3) (laneCount env)
        in [(mkObject (uuidv4 env u) LASER_GATE (0, 0.8, spawnZ) ''#ff0000'')
              \<lparr> laserActive := Some True, val := Some (String gateWidth) \<rparr>]
      else if level env \<ge> 5 \<and> obstacleRoll < 0.18 then
        let lane = getRandomLane (laneCount env) (random env 3)
        in [(mkObject (uuidv4 env u) BARRIER (real_of_int lane * LANE_WIDTH, 1.25, spawnZ) ''#ff6600'')
              \<lparr> moveDirection := Some (if random env 4 > 0.5 then 1 else - 1),
                moveSpeed := Some (3 + real_of_int (level env) * 0.5) \<rparr>]
      else if level env \<ge> 3 \<and> obstacleRoll < 0.30 then
        let lanes = availableLanes env;
            spikeCount = min (1 + \<lfloor>random env 3 * 3\<rfloor>) (int (length lanes))
        in map (\<lambda>(i, lane). mkObject (uuidv4 env (u + i)) SPIKE_FLOOR
                               (real_of_int lane * LANE_WIDTH, 0, spawnZ) ''#cc0000'')
               (enumerate 0 (take (nat spikeCount) lanes))
      else if level env \<ge> 6 \<and> obstacleRoll < 0.38 then
        let lane = getRandomLane (laneCount env) (random env 3)
        in [(mkObject (uuidv4 env u) TURRET (real_of_int lane * LANE_WIDTH, 0.2, spawnZ) ''#666666'')
              \<lparr> hasFired := Some False \<rparr>]
      else if random env 3 < droneChance config then
        let lane = getRandomLane (laneCount env) (random env 4)
        in [mkObject (uuidv4 env u) DRONE (real_of_int lane * LANE_WIDTH, 1.5, spawnZ) ''#111111'']
      else if random env 4 < alienChance config then
        let lanes = availableLanes env;
            pAlien = random env 5;
            alienCount0 = (if pAlien > 0.7 then min 2 (int (length lanes)) else 1);
            alienCount = (if pAlien > 0.9 \<and> length lanes \<ge> 3 then 3 else alienCount0)
        in map (\<lambda>(i, lane). (mkObject (uuidv4 env (u + i)) ALIEN
                                (real_of_int lane * LANE_WIDTH, 1.5, spawnZ) ''#00ff00'')
                              \<lparr> hasFired := Some False \<rparr>)
               (enumerate 0 (take (nat alienCount) lanes))
      else
        let lanes = availableLanes env;
            p = random env 5;
            countToSpawn = (if p > tripleObstacleChance config then min 3 (int (length lanes))
                            else if p > multiObstacleChance config then min 2 (int (length lanes))
                            else 1)
        in obstacleRow env config spawnZ (take (nat countToSpawn) lanes) 6 u)"

text \<open>The branch of ground items; the lane is random call 2.\<close>

definition groundItemSpawn :: "Env \<Rightarrow> DifficultyConfig \<Rightarrow> real \<Rightarrow> nat \<Rightarrow> GameObject list" where
  "groundItemSpawn env config spawnZ u =
     (let lane = getRandomLane (laneCount env) (random env 2);
          k1 = (if level env \<ge> 4 then 4 else 3);
          k2 = (if level env \<ge> 7 then k1 + 1 else k1)
      in if level env \<ge> 4 \<and> random env 3 < 0.03 then
           [mkObject (uuidv4 env u) JUMP_PAD (real_of_int lane * LANE_WIDTH, 0.1, spawnZ) ''#00ff88'']
         else if level env \<ge> 7 \<and> random env k1 < 0.03 then
           [mkObject (uuidv4 env u) SPEED_BOOST (real_of_int lane * LANE_WIDTH, 0.5, spawnZ) ''#ffaa00'']
         else if random env k2 < powerupChance config then
           let isShield = (random env (k2 + 1) > 0.5)
           in [mkObject (uuidv4 env u) (if isShield then SHIELD else MAGNET)
                 (real_of_int lane * LANE_WIDTH, 1.2, spawnZ) (if isShield then ''#00ffff'' else ''#d000ff'')]
         else
           [(mkObject (uuidv4 env u) GEM (real_of_int lane * LANE_WIDTH, 1.2, spawnZ) ''#00ffff'')
              \<lparr> points := Some (gemBaseValue config) \<rparr>])"

text \<open>
  The whole of \<^verbatim>\<open>// 2. Spawning Logic\<close>, run on \<^verbatim>\<open>keptObjects\<close> after the missiles of
  this tick were appended: the objects pushed, the new letter threshold, and whether
  \<^verbatim>\<open>hasChanges\<close> was set.
\<close>

definition spawnZ_of :: "Env \<Rightarrow> GameObject list \<Rightarrow> real" where
  "spawnZ_of env kept =
     (let config = getDifficultyConfig (level env);
          gap = minGap config + speed env * 0.3
      in min (furthestZ kept - gap) (- SPAWN_DISTANCE))"

definition isLetterDue :: "real \<Rightarrow> real \<Rightarrow> bool" where
  "isLetterDue distanceTraveled nextLetter = (distanceTraveled \<ge> nextLetter)"

definition spawnLogic :: "Env \<Rightarrow> real \<Rightarrow> real \<Rightarrow> GameObject list \<Rightarrow> nat \<Rightarrow> GameObject list \<times> real \<times> bool" where
  "spawnLogic env distanceTraveled nextLetter kept u =
     (if furthestZ kept > - SPAWN_DISTANCE then
        let config = getDifficultyConfig (level env);
            spawnZ = spawnZ_of env kept
        in if isLetterDue distanceTraveled nextLetter then
             (fst (letterSpawn env config spawnZ nextLetter u),
              snd (letterSpawn env config spawnZ nextLetter u), True)
           else if random env 0 > 0.1 then
             (if random env 1 < obstacleChance config then obstacleSpawn env config spawnZ u
              else groundItemSpawn env config spawnZ u,
              nextLetter, True)
           else ([], nextLetter, False)
      else ([], nextLetter, False))"

subsection \<open>The tick\<close>

record Sim =
  objects :: "GameObject list"
  distanceTraveled :: real
  nextLetterDistance :: real

definition tick :: "Env \<Rightarrow> Sim \<Rightarrow> Sim \<times> Event list" where
  "tick env sim =
     (if status env \<noteq> PLAYING then (sim, [])
      else
        let travelled = distanceTraveled sim + dist env;
            st = updateLoop env (objects sim) loopInit;
            kept = keptObjects st @ newSpawns st;
            (pushed, nextLetter, spawned) =
               spawnLogic env travelled (nextLetterDistance sim) kept (length (newSpawns st))
        in (\<lparr> objects = (if hasChanges st \<or> spawned then kept @ pushed else mutated st),
              distanceTraveled = travelled,
              nextLetterDistance = nextLetter \<rparr>,
            emitted st))"

subsection \<open>Auxiliary notions for stating the properties\<close>

text \<open>
  The entity after this tick's movement and the blocks that change its position (magnet,
  drone, barrier): the coordinates the firing tests and the collision test read.
\<close>

definition cur :: "Env \<Rightarrow> GameObject \<Rightarrow> GameObject" where
  "cur env obj = barrierLogic env (droneLogic env (magnetLogic env (standardMovement env obj)))"

text \<open>The condition under which the turret block or the alien block fires.\<close>

definition fires :: "Env \<Rightarrow> GameObject \<Rightarrow> bool" where
  "fires env obj =
     (active obj \<and> hasFired obj \<noteq> Some True
      \<and> (type obj = TURRET \<and> pos2 (cur env obj) > - 80 \<or> type obj = ALIEN \<and> pos2 (cur env obj) > - 90))"


text \<open>
  The iterations of one run of the loop, in order (\<open>u\<close> identifiers were handed out
  before), and the history of a single entity over a sequence of ticks: each tick is given
  by what it reads and by the identifier count at the entity's iteration.
\<close>

fun loopSteps :: "Env \<Rightarrow> GameObject list \<Rightarrow> nat \<Rightarrow> Step list" where
  "loopSteps env [] u = []"
| "loopSteps env (obj # rest) u =
     (let r = updateObject env u obj in r # loopSteps env rest (u + length (s_spawns r)))"

fun trajectory :: "(Env \<times> nat) list \<Rightarrow> GameObject \<Rightarrow> Step list" where
  "trajectory [] obj = []"
| "trajectory ((env, u) # ts) obj =
     (let r = updateObject env u obj in r # trajectory ts (s_obj r))"

definition missilesFired :: "(Env \<times> nat) list \<Rightarrow> GameObject \<Rightarrow> GameObject list" where
  "missilesFired ts obj = concat (map s_spawns (trajectory ts obj))"

text \<open>
  The collision rule in the words of the specification.  Two intervals overlap when they
  share more than an end point.
\<close>

fun spec_band :: "ObjectType \<Rightarrow> real \<Rightarrow> real \<times> real" where
  "spec_band OBSTACLE y = (0, 1.6)"
| "spec_band MISSILE y = (0.5, 1.5)"
| "spec_band LASER_GATE y = (0.5, 1.2)"
| "spec_band BARRIER y = (0, 2.5)"
| "spec_band SPIKE_FLOOR y = (0, 0.8)"
| "spec_band TURRET y = (0, 0.8)"
| "spec_band t y = (y - 0.5, y + 0.5)"

definition spec_overlap :: "real \<times> real \<Rightarrow> real \<times> real \<Rightarrow> bool" where
  "spec_overlap i j = (fst i < snd j \<and> fst j < snd i)"

definition spec_candidate :: "vec3 \<Rightarrow> real \<Rightarrow> real \<Rightarrow> bool" where
  "spec_candidate p prevZ curZ = (prevZ < vz p + 2.0 \<and> curZ > vz p - 2.0)"

definition spec_lateral :: "ObjectType \<Rightarrow> real \<Rightarrow> real \<Rightarrow> bool" where
  "spec_lateral t x px = (\<bar>x - px\<bar> < (if t = MAGNET \<or> t = SHIELD then 1.5 else 0.9))"

definition spec_hit :: "vec3 \<Rightarrow> real \<Rightarrow> GameObject \<Rightarrow> bool" where
  "spec_hit p prevZ c =
     (spec_candidate p prevZ (pos2 c) \<and> spec_lateral (type c) (pos0 c) (vx p)
      \<and> spec_overlap (vy p, vy p + 1.8) (spec_band (type c) (pos1 c)))"


subsection \<open>Concrete inputs\<close>

text \<open>
  A running game at level 1 with three lanes, the player standing at the origin, no magnet,
  world speed 20 and a frame of 0.05 s, so that the world scrolls one unit per tick; every
  random roll is 0 (the tick's skip roll then skips the random spawn).
\<close>

definition env0 :: Env where
  "env0 = \<lparr> status = PLAYING, speed = 20, level = 1, laneCount = 3, collectedLetters = [],
            magnetEndTime = 0, now = 1, delta = 0.05, playerObj = Some (0, 0, 0),
            random = (\<lambda>k. 0), uuidv4 = (\<lambda>k. ''id''), shuffled = (\<lambda>xs. xs) \<rparr>"

text \<open>An obstacle in the player's lane, one unit ahead of the player.\<close>

definition obstacle0 :: GameObject where
  "obstacle0 = mkObject ''o'' OBSTACLE (0, 0.8, - 1) ''#ff0054''"

definition sim0 :: Sim where
  "sim0 = \<lparr> objects = [obstacle0], distanceTraveled = 0, nextLetterDistance = 200 \<rparr>"

definition envNoPlayer :: Env where
  "envNoPlayer = env0\<lparr>playerObj := None\<rparr>"

definition envMagnet :: Env where
  "envMagnet = env0\<lparr>magnetEndTime := 2\<rparr>"

definition env5 :: Env where
  "env5 = env0\<lparr>level := 5, random := (\<lambda>k. 0.15)\<rparr>"

definition envAll :: Env where
  "envAll = env0\<lparr>collectedLetters := [0, 1, 2, 3, 4, 5]\<rparr>"

definition deadObstacle :: GameObject where
  "deadObstacle = obstacle0\<lparr>active := False\<rparr>"

definition obstacleFar :: GameObject where
  "obstacleFar = mkObject ''f'' OBSTACLE (0, 0.8, - 130) ''#ff0054''"

definition simFar :: Sim where
  "simFar = \<lparr> objects = [obstacleFar], distanceTraveled = 500, nextLetterDistance = 200 \<rparr>"

definition turret0 :: GameObject where
  "turret0 = (mkObject ''t'' TURRET (2.2, 0.2, - 80.5) ''#666666'')\<lparr>hasFired := Some False\<rparr>"

definition simTurret :: Sim where
  "simTurret = \<lparr> objects = [turret0], distanceTraveled = 0, nextLetterDistance = 200 \<rparr>"

definition drone0 :: GameObject where
  "drone0 = mkObject ''d'' DRONE (2.2, 1.5, - 11) ''#111111''"

definition drone1 :: GameObject where
  "drone1 = mkObject ''d'' DRONE (2.2, 1.5, - 10) ''#111111''"

definition drone2 :: GameObject where
  "drone2 = mkObject ''d'' DRONE (2.2, 1.5, - 4) ''#111111''"

definition gem0 :: GameObject where
  "gem0 = (mkObject ''g'' GEM (35, 1.2, - 1) ''#00ffff'')\<lparr>points := Some 50\<rparr>"

definition gem1 :: GameObject where
  "gem1 = (mkObject ''g'' GEM (0, 1.2, - 1) ''#00ffff'')\<lparr>points := Some 50\<rparr>"

definition barrier0 :: GameObject where
  "barrier0 = (mkObject ''b'' BARRIER (2, 1.25, - 50) ''#ff6600'')\<lparr>moveDirection := Some 1, moveSpeed := Some 8\<rparr>"

section \<open>Basic facts about the blocks\<close>

lemma type_blocks [simp]:
  "type (standardMovement env obj) = type obj"
  "type (magnetLogic env obj) = type obj"
  "type (droneLogic env obj) = type obj"
  "type (barrierLogic env obj) = type obj"
  "type (fst (turretLogic i obj)) = type obj"
  "type (fst (alienLogic i obj)) = type obj"
  "type (fst (collision env prevZ obj)) = type obj"
  by (simp_all add: standardMovement_def magnetLogic_def droneLogic_def barrierLogic_def
        turretLogic_def alienLogic_def collision_def Let_def)

lemma active_blocks [simp]:
  "active (standardMovement env obj) = active obj"
  "active (magnetLogic env obj) = active obj"
  "active (droneLogic env obj) = active obj"
  "active (barrierLogic env obj) = active obj"
  "active (fst (turretLogic i obj)) = active obj"
  "active (fst (alienLogic i obj)) = active obj"
  by (simp_all add: standardMovement_def magnetLogic_def droneLogic_def barrierLogic_def
        turretLogic_def alienLogic_def Let_def)

lemma hasFired_blocks [simp]:
  "hasFired (standardMovement env obj) = hasFired obj"
  "hasFired (magnetLogic env obj) = hasFired obj"
  "hasFired (droneLogic env obj) = hasFired obj"
  "hasFired (barrierLogic env obj) = hasFired obj"
  "hasFired (fst (collision env prevZ obj)) = hasFired obj"
  by (simp_all add: standardMovement_def magnetLogic_def droneLogic_def barrierLogic_def
        collision_def Let_def)

lemma moveSpeed_blocks [simp]:
  "moveSpeed (standardMovement env obj) = moveSpeed obj"
  "moveSpeed (magnetLogic env obj) = moveSpeed obj"
  "moveSpeed (droneLogic env obj) = moveSpeed obj"
  "moveSpeed (barrierLogic env obj) = moveSpeed obj"
  "moveSpeed (fst (collision env prevZ obj)) = moveSpeed obj"
  by (simp_all add: standardMovement_def magnetLogic_def droneLogic_def barrierLogic_def
        collision_def Let_def)

lemma moveDirection_blocks [simp]:
  "moveDirection (standardMovement env obj) = moveDirection obj"
  "moveDirection (magnetLogic env obj) = moveDirection obj"
  "moveDirection (droneLogic env obj) = moveDirection obj"
  "moveDirection (fst (collision env prevZ obj)) = moveDirection obj"
  by (simp_all add: standardMovement_def magnetLogic_def droneLogic_def collision_def Let_def)

lemma position_collision [simp]: "position (fst (collision env prevZ c)) = position c"
  by (simp add: collision_def Let_def)

lemma cur_fields [simp]:
  "type (cur env obj) = type obj"
  "active (cur env obj) = active obj"
  "hasFired (cur env obj) = hasFired obj"
  "moveSpeed (cur env obj) = moveSpeed obj"
  by (simp_all add: cur_def)

lemma lerp_alt: "lerp a b t = a + (b - a) * t"
  by (simp add: lerp_def algebra_simps)

text \<open>Which block moves which type of entity.\<close>

lemma cur_gem: "type obj = GEM \<Longrightarrow> cur env obj = magnetLogic env (standardMovement env obj)"
  by (simp add: cur_def droneLogic_def barrierLogic_def)

lemma cur_drone: "type obj = DRONE \<Longrightarrow> cur env obj = droneLogic env (standardMovement env obj)"
  by (simp add: cur_def magnetLogic_def barrierLogic_def)


lemma cur_other:
  "type obj \<noteq> GEM \<Longrightarrow> type obj \<noteq> DRONE \<Longrightarrow> type obj \<noteq> BARRIER \<Longrightarrow>
   cur env obj = standardMovement env obj"
  by (simp add: cur_def magnetLogic_def droneLogic_def barrierLogic_def)

lemma cur_inactive: "\<not> active obj \<Longrightarrow> cur env obj = standardMovement env obj"
  by (simp add: cur_def magnetLogic_def droneLogic_def barrierLogic_def)

section \<open>The firing blocks\<close>

lemma behaviours_alt:
  "behaviours env u obj =
     (let t = turretLogic (uuidv4 env u) (cur env obj);
          a = alienLogic (uuidv4 env (u + length (fst (snd t)))) (fst t)
      in (fst a, fst (snd t) @ fst (snd a), snd (snd t) @ snd (snd a)))"
  by (simp add: behaviours_def cur_def Let_def case_prod_beta)

lemma behaviours_fires:
  assumes "fires env obj"
  shows "behaviours env u obj =
     ((cur env obj)\<lparr>hasFired := Some True\<rparr>,
      [missile (uuidv4 env u)
         (pos0 (cur env obj), if type obj = TURRET then 0.8 else 1.0, pos2 (cur env obj) + 2)
         (if type obj = TURRET then ''#ffaa00'' else ''#ff0000'')],
      [ParticleBurst (position (cur env obj)) (if type obj = TURRET then ''#ffaa00'' else ''#ff00ff'')])"
proof (cases "type obj = TURRET")
  case True
  with assms show ?thesis
    by (simp add: behaviours_alt fires_def turretLogic_def alienLogic_def notFired_def Let_def)
next
  case False
  with assms have "type obj = ALIEN" by (simp add: fires_def)
  with assms show ?thesis
    by (simp add: behaviours_alt fires_def turretLogic_def alienLogic_def notFired_def Let_def)
qed

lemma behaviours_quiet:
  assumes "\<not> fires env obj"
  shows "behaviours env u obj = (cur env obj, [], [])"
proof -
  have t: "turretLogic (uuidv4 env u) (cur env obj) = (cur env obj, [], [])"
    using assms by (auto simp add: fires_def turretLogic_def notFired_def)
  have a: "alienLogic (uuidv4 env u) (cur env obj) = (cur env obj, [], [])"
    using assms by (auto simp add: fires_def alienLogic_def notFired_def)
  show ?thesis by (simp add: behaviours_alt t a)
qed

lemma behaviours_fields [simp]:
  "type (fst (behaviours env u obj)) = type obj"
  "active (fst (behaviours env u obj)) = active obj"
  "position (fst (behaviours env u obj)) = position (cur env obj)"
  "moveSpeed (fst (behaviours env u obj)) = moveSpeed obj"
  "moveDirection (fst (behaviours env u obj)) = moveDirection (cur env obj)"
  by (cases "fires env obj"; simp add: behaviours_fires behaviours_quiet)+

lemma spawns_iff_fires: "(fst (snd (behaviours env u obj)) \<noteq> []) = fires env obj"
  by (cases "fires env obj") (simp_all add: behaviours_fires behaviours_quiet)

lemma fired_not_fires: "hasFired obj = Some True \<Longrightarrow> \<not> fires env obj"
  by (simp add: fires_def)

lemma inactive_not_fires: "\<not> active obj \<Longrightarrow> \<not> fires env obj"
  by (simp add: fires_def)

section \<open>One iteration of the loop\<close>

lemma updateObject_alt:
  "updateObject env u obj =
     (let b = behaviours env u obj; c = collision env (pos2 obj) (fst b);
          removed = (pos2 (fst b) > REMOVE_DISTANCE)
      in \<lparr> s_obj = fst c, s_keep = (fst (snd c) \<and> \<not> removed), s_spawns = fst (snd b),
           s_events = snd (snd b) @ fst (snd (snd c)),
           s_changed = (fst (snd b) \<noteq> [] \<or> snd (snd (snd c)) \<or> removed) \<rparr>)"
  by (simp add: updateObject_def Let_def case_prod_beta)

lemma s_obj_updateObject:
  "s_obj (updateObject env u obj) = fst (collision env (pos2 obj) (fst (behaviours env u obj)))"
  by (simp add: updateObject_alt Let_def)

lemma s_spawns_updateObject: "s_spawns (updateObject env u obj) = fst (snd (behaviours env u obj))"
  by (simp add: updateObject_alt Let_def)

lemma s_events_updateObject:
  "s_events (updateObject env u obj) =
     snd (snd (behaviours env u obj))
     @ fst (snd (snd (collision env (pos2 obj) (fst (behaviours env u obj)))))"
  by (simp add: updateObject_alt Let_def)

lemma position_step: "position (s_obj (updateObject env u obj)) = position (cur env obj)"
  by (simp add: s_obj_updateObject)

lemma type_step: "type (s_obj (updateObject env u obj)) = type obj"
  by (simp add: s_obj_updateObject)

lemma keep_collision:
  "fst (snd (collision env prevZ c)) =
     (\<not> (active c \<and> type c = SHOP_PORTAL \<and> \<bar>pos2 c - vz (playerPos env)\<bar> < 2))"
  by (simp add: collision_def Let_def)

lemma s_keep_updateObject:
  "s_keep (updateObject env u obj) =
     (\<not> pos2 (cur env obj) > REMOVE_DISTANCE
      \<and> \<not> (active obj \<and> type obj = SHOP_PORTAL \<and> \<bar>pos2 (cur env obj) - vz (playerPos env)\<bar> < 2))"
  by (auto simp add: updateObject_alt Let_def keep_collision)

lemma inactive_step:
  assumes "\<not> active obj"
  shows "updateObject env u obj =
     \<lparr> s_obj = standardMovement env obj,
       s_keep = (\<not> pos2 (standardMovement env obj) > REMOVE_DISTANCE),
       s_spawns = [], s_events = [],
       s_changed = (pos2 (standardMovement env obj) > REMOVE_DISTANCE) \<rparr>"
  using assms
  by (simp add: updateObject_alt behaviours_quiet[OF inactive_not_fires] cur_inactive collision_def Let_def)

section \<open>The loop as a list of iterations\<close>

lemma updateLoop_steps:
  "updateLoop env objs st =
     (let steps = loopSteps env objs (length (newSpawns st))
      in \<lparr> mutated = mutated st @ map s_obj steps,
           keptObjects = keptObjects st @ map s_obj (filter s_keep steps),
           newSpawns = newSpawns st @ concat (map s_spawns steps),
           emitted = emitted st @ concat (map s_events steps),
           hasChanges = (hasChanges st \<or> (\<exists>r \<in> set steps. s_changed r)) \<rparr>)"
proof (induction objs arbitrary: st)
  case Nil
  show ?case by simp
next
  case (Cons obj rest)
  show ?case by (simp add: Cons.IH Let_def)
qed

lemma updateLoop_init:
  "updateLoop env objs loopInit =
     \<lparr> mutated = map s_obj (loopSteps env objs 0),
       keptObjects = map s_obj (filter s_keep (loopSteps env objs 0)),
       newSpawns = concat (map s_spawns (loopSteps env objs 0)),
       emitted = concat (map s_events (loopSteps env objs 0)),
       hasChanges = (\<exists>r \<in> set (loopSteps env objs 0). s_changed r) \<rparr>"
  by (simp add: updateLoop_steps loopInit_def Let_def)

lemma loopSteps_mem:
  "r \<in> set (loopSteps env objs u) \<Longrightarrow> \<exists>ob \<in> set objs. \<exists>v. r = updateObject env v ob"
  by (induction objs arbitrary: u) (auto simp add: Let_def)

lemma loopSteps_length: "length (loopSteps env objs u) = length objs"
  by (induction objs arbitrary: u) (simp_all add: Let_def)

lemma spawns_changed: "s_spawns (updateObject env u obj) \<noteq> [] \<Longrightarrow> s_changed (updateObject env u obj)"
  by (simp add: updateObject_alt Let_def)

lemma unkept_changed: "\<not> s_keep (updateObject env u obj) \<Longrightarrow> s_changed (updateObject env u obj)"
  by (auto simp add: updateObject_alt Let_def collision_def split: if_splits)

text \<open>
  When the loop leaves \<^verbatim>\<open>hasChanges\<close> false, nothing was dropped and nothing was fired:
  the array that stays in \<^verbatim>\<open>objectsRef.current\<close> holds the same entities as \<^verbatim>\<open>keptObjects\<close>.
\<close>

lemma unchanged_loop:
  assumes "\<not> hasChanges (updateLoop env objs loopInit)"
  shows "mutated (updateLoop env objs loopInit) = keptObjects (updateLoop env objs loopInit)"
    and "newSpawns (updateLoop env objs loopInit) = []"
proof -
  have all: "\<forall>r \<in> set (loopSteps env objs 0). \<not> s_changed r"
    using assms by (simp add: updateLoop_init)
  have keep: "\<forall>r \<in> set (loopSteps env objs 0). s_keep r"
  proof
    fix r assume r: "r \<in> set (loopSteps env objs 0)"
    then obtain ob v where "r = updateObject env v ob" using loopSteps_mem by blast
    with all r show "s_keep r" using unkept_changed by blast
  qed
  have quiet: "\<forall>r \<in> set (loopSteps env objs 0). s_spawns r = []"
  proof
    fix r assume r: "r \<in> set (loopSteps env objs 0)"
    then obtain ob v where "r = updateObject env v ob" using loopSteps_mem by blast
    with all r show "s_spawns r = []" using spawns_changed by blast
  qed
  from keep have "filter s_keep (loopSteps env objs 0) = loopSteps env objs 0" by simp
  then show "mutated (updateLoop env objs loopInit) = keptObjects (updateLoop env objs loopInit)"
    by (simp add: updateLoop_init)
  from quiet show "newSpawns (updateLoop env objs loopInit) = []"
    by (simp add: updateLoop_init)
qed

section \<open>The history of one entity\<close>

lemma inactive_trajectory:
  "\<not> active obj \<Longrightarrow> r \<in> set (trajectory ts obj) \<Longrightarrow>
   \<not> active (s_obj r) \<and> s_events r = [] \<and> s_spawns r = []"
proof (induction ts arbitrary: obj)
  case Nil
  then show ?case by simp
next
  case (Cons t ts)
  obtain env u where t: "t = (env, u)" by (cases t)
  from Cons.prems(1) have st: "\<not> active (s_obj (updateObject env u obj))"
    by (simp add: inactive_step)
  from Cons.prems(2) t consider "r = updateObject env u obj"
    | "r \<in> set (trajectory ts (s_obj (updateObject env u obj)))"
    by (auto simp add: Let_def)
  then show ?case
  proof cases
    case 1
    with Cons.prems(1) show ?thesis by (simp add: inactive_step)
  next
    case 2
    with Cons.IH[OF st] show ?thesis by simp
  qed
qed

lemma inactive_s_obj:
  "\<not> active obj \<Longrightarrow>
   s_obj (updateObject env u obj) =
     obj\<lparr>position := (pos0 obj, pos1 obj,
            pos2 obj + (if type obj = MISSILE then dist env + MISSILE_SPEED * safeDelta env else dist env))\<rparr>"
  by (simp add: inactive_step standardMovement_def)

lemma inactive_trajectory_frame:
  "\<not> active obj \<Longrightarrow> r \<in> set (trajectory ts obj) \<Longrightarrow>
   s_obj r = obj\<lparr>position := (pos0 obj, pos1 obj, pos2 (s_obj r))\<rparr>"
proof (induction ts arbitrary: obj)
  case Nil
  then show ?case by simp
next
  case (Cons t ts)
  obtain env u where t: "t = (env, u)" by (cases t)
  let ?o = "s_obj (updateObject env u obj)"
  have st: "\<not> active ?o" using Cons.prems(1) by (simp add: inactive_step)
  have eq: "?o = obj\<lparr>position := (pos0 obj, pos1 obj, pos2 ?o)\<rparr>"
    using Cons.prems(1) by (simp add: inactive_s_obj)
  from Cons.prems(2) t consider "r = updateObject env u obj" | "r \<in> set (trajectory ts ?o)"
    by (auto simp add: Let_def)
  then show ?case
  proof cases
    case 1
    with eq show ?thesis by simp
  next
    case 2
    from Cons.IH[OF st 2] have "s_obj r = ?o\<lparr>position := (pos0 ?o, pos1 ?o, pos2 (s_obj r))\<rparr>" .
    also have "\<dots> = obj\<lparr>position := (pos0 obj, pos1 obj, pos2 (s_obj r))\<rparr>"
      using Cons.prems(1) by (simp add: inactive_s_obj)
    finally show ?thesis .
  qed
qed

lemma fired_step:
  assumes "hasFired obj = Some True"
  shows "s_spawns (updateObject env u obj) = []" "hasFired (s_obj (updateObject env u obj)) = Some True"
  using assms
  by (simp_all add: s_spawns_updateObject s_obj_updateObject behaviours_quiet[OF fired_not_fires])

lemma fired_trajectory: "hasFired obj = Some True \<Longrightarrow> missilesFired ts obj = []"
proof (induction ts arbitrary: obj)
  case Nil
  show ?case by (simp add: missilesFired_def)
next
  case (Cons t ts)
  obtain env u where t: "t = (env, u)" by (cases t)
  from Cons.IH[OF fired_step(2)[OF Cons.prems]] fired_step(1)[OF Cons.prems]
  show ?case by (simp add: missilesFired_def t Let_def)
qed

lemma firing_step:
  assumes "s_spawns (updateObject env u obj) \<noteq> []"
  shows "fires env obj" "hasFired (s_obj (updateObject env u obj)) = Some True"
    "length (s_spawns (updateObject env u obj)) = 1"
proof -
  from assms show f: "fires env obj" by (simp add: s_spawns_updateObject spawns_iff_fires)
  show "hasFired (s_obj (updateObject env u obj)) = Some True"
    by (simp add: s_obj_updateObject behaviours_fires[OF f])
  show "length (s_spawns (updateObject env u obj)) = 1"
    by (simp add: s_spawns_updateObject behaviours_fires[OF f])
qed

lemma at_most_one: "length (missilesFired ts obj) \<le> 1"
proof (induction ts arbitrary: obj)
  case Nil
  show ?case by (simp add: missilesFired_def)
next
  case (Cons t ts)
  obtain env u where t: "t = (env, u)" by (cases t)
  let ?r = "updateObject env u obj"
  have split: "missilesFired (t # ts) obj = s_spawns ?r @ missilesFired ts (s_obj ?r)"
    by (simp add: missilesFired_def t Let_def)
  show ?case
  proof (cases "s_spawns ?r = []")
    case True
    with Cons.IH[of "s_obj ?r"] split show ?thesis by simp
  next
    case False
    from fired_trajectory[OF firing_step(2)[OF False]] firing_step(3)[OF False] split
    show ?thesis by simp
  qed
qed

section \<open>Collision in the words of the specification\<close>

lemma isHit_spec:
  "isHit env c = spec_overlap (vy (playerPos env), vy (playerPos env) + 1.8) (spec_band (type c) (pos1 c))"
  by (cases "type c")
     (simp_all add: isHit_def spec_overlap_def objTop_def objBottom_def OBSTACLE_HEIGHT_def Let_def conj_commute)

lemma inZZone_spec: "inZZone env prevZ c = spec_candidate (playerPos env) prevZ (pos2 c)"
  by (simp add: inZZone_def spec_candidate_def)

lemma collision_damage:
  assumes "active c" "isDamageSource (type c)"
  shows "collision env prevZ c =
     (if spec_hit (playerPos env) prevZ c
      then (c\<lparr>active := False\<rparr>, True, [PlayerHit, ParticleBurst (position c) (burstColor c)], True)
      else (c, True, [], False))"
proof -
  from assms(2) have t: "type c \<noteq> SHOP_PORTAL" "type c \<noteq> MAGNET" "type c \<noteq> SHIELD"
    by (auto simp add: isDamageSource_def)
  show ?thesis using assms t
    by (simp add: collision_def spec_hit_def spec_lateral_def hitDist_def inZZone_spec isHit_spec Let_def)
qed

lemma collision_pickup:
  assumes "active c" "\<not> isDamageSource (type c)" "type c \<noteq> SHOP_PORTAL"
  shows "collision env prevZ c =
     (if spec_candidate (playerPos env) prevZ (pos2 c) \<and> spec_lateral (type c) (pos0 c) (vx (playerPos env))
         \<and> \<bar>pos1 c - vy (playerPos env)\<bar> < 2.5
      then (c\<lparr>active := False\<rparr>, True,
            collectEvents c @ [ParticleBurst (position c) (str_or (color c) ''#ffffff'')], True)
      else (c, True, [], False))"
  using assms
  by (simp add: collision_def spec_lateral_def hitDist_def inZZone_spec Let_def)

lemma firing_events:
  "e \<in> set (snd (snd (behaviours env u obj))) \<Longrightarrow>
   e = ParticleBurst (position (cur env obj)) ''#ffaa00'' \<or> e = ParticleBurst (position (cur env obj)) ''#ff00ff''"
  by (cases "fires env obj") (auto simp add: behaviours_fires behaviours_quiet)

lemma collectEvents_no_hit: "PlayerHit \<notin> set (collectEvents c)"
  by (simp add: collectEvents_def split: option.splits)

section \<open>The tick\<close>

lemma tick_alt:
  assumes "status env = PLAYING"
  shows "tick env sim =
     (let st = updateLoop env (objects sim) loopInit;
          sp = spawnLogic env (distanceTraveled sim + dist env) (nextLetterDistance sim)
                 (keptObjects st @ newSpawns st) (length (newSpawns st))
      in (\<lparr> objects = (if hasChanges st \<or> snd (snd sp) then keptObjects st @ newSpawns st @ fst sp
                        else mutated st),
            distanceTraveled = distanceTraveled sim + dist env,
            nextLetterDistance = fst (snd sp) \<rparr>,
          emitted st))"
  using assms by (simp add: tick_def Let_def case_prod_beta)

lemma tick_events:
  "status env = PLAYING \<Longrightarrow> snd (tick env sim) = concat (map s_events (loopSteps env (objects sim) 0))"
  by (simp add: tick_alt Let_def updateLoop_init)

lemma tick_objects_changed:
  assumes "status env = PLAYING" "hasChanges (updateLoop env (objects sim) loopInit)"
  shows "objects (fst (tick env sim)) =
           keptObjects (updateLoop env (objects sim) loopInit)
           @ newSpawns (updateLoop env (objects sim) loopInit)
           @ fst (spawnLogic env (distanceTraveled sim + dist env) (nextLetterDistance sim)
                   (keptObjects (updateLoop env (objects sim) loopInit)
                    @ newSpawns (updateLoop env (objects sim) loopInit))
                   (length (newSpawns (updateLoop env (objects sim) loopInit))))"
  using assms by (simp add: tick_alt Let_def)

lemma spawns_set_changes:
  assumes "m \<in> set (newSpawns (updateLoop env objs loopInit))"
  shows "hasChanges (updateLoop env objs loopInit)"
proof -
  from assms obtain r where r: "r \<in> set (loopSteps env objs 0)" "m \<in> set (s_spawns r)"
    by (auto simp add: updateLoop_init)
  then obtain ob v where "r = updateObject env v ob" using loopSteps_mem by blast
  moreover from this r(2) have "s_spawns (updateObject env v ob) \<noteq> []" by auto
  ultimately have "s_changed r" using spawns_changed[of env v ob] by simp
  with r(1) show ?thesis by (auto simp add: updateLoop_init)
qed

lemma spawned_missile:
  assumes "m \<in> set (newSpawns (updateLoop env objs loopInit))"
  shows "\<exists>ob \<in> set objs. \<exists>v. fires env ob \<and>
           m = missile (uuidv4 env v)
                 (pos0 (cur env ob), if type ob = TURRET then 0.8 else 1.0, pos2 (cur env ob) + 2)
                 (if type ob = TURRET then ''#ffaa00'' else ''#ff0000'')"
proof -
  from assms obtain r where r: "r \<in> set (loopSteps env objs 0)" "m \<in> set (s_spawns r)"
    by (auto simp add: updateLoop_init)
  then obtain ob v where ob: "ob \<in> set objs" "r = updateObject env v ob" using loopSteps_mem by blast
  with r(2) have ne: "s_spawns (updateObject env v ob) \<noteq> []" by auto
  have f: "fires env ob" by (rule firing_step(1)[OF ne])
  from r(2) ob(2) have "m = missile (uuidv4 env v)
                 (pos0 (cur env ob), if type ob = TURRET then 0.8 else 1.0, pos2 (cur env ob) + 2)
                 (if type ob = TURRET then ''#ffaa00'' else ''#ff0000'')"
    by (simp add: s_spawns_updateObject behaviours_fires[OF f])
  with ob(1) f show ?thesis by blast
qed

lemma missile_fields [simp]:
  "type (missile i p c) = MISSILE" "active (missile i p c)" "position (missile i p c) = p"
  by (simp_all add: missile_def)

lemma missile_moves:
  "type m = MISSILE \<Longrightarrow> pos2 (cur env m) = pos2 m + dist env + MISSILE_SPEED * safeDelta env"
  by (simp add: cur_other standardMovement_def)

lemma damage_step:
  assumes "active obj" "isDamageSource (type obj)"
  shows "(\<not> active (s_obj (updateObject env u obj))) = spec_hit (playerPos env) (pos2 obj) (cur env obj)"
    and "(PlayerHit \<in> set (s_events (updateObject env u obj))) = spec_hit (playerPos env) (pos2 obj) (cur env obj)"
    and "(ParticleBurst (position (cur env obj)) (burstColor obj) \<in> set (s_events (updateObject env u obj)))
           = spec_hit (playerPos env) (pos2 obj) (cur env obj)"
proof -
  let ?b = "fst (behaviours env u obj)"
  have same: "spec_hit (playerPos env) (pos2 obj) ?b = spec_hit (playerPos env) (pos2 obj) (cur env obj)"
    by (simp add: spec_hit_def)
  have bc: "burstColor ?b = burstColor obj" by (simp add: burstColor_def)
  have c: "collision env (pos2 obj) ?b =
     (if spec_hit (playerPos env) (pos2 obj) (cur env obj)
      then (?b\<lparr>active := False\<rparr>, True, [PlayerHit, ParticleBurst (position (cur env obj)) (burstColor obj)], True)
      else (?b, True, [], False))"
    using collision_damage[of ?b env "pos2 obj"] assms by (simp add: same bc)
  show "(\<not> active (s_obj (updateObject env u obj))) = spec_hit (playerPos env) (pos2 obj) (cur env obj)"
    using assms(1) by (simp add: s_obj_updateObject c)
  have nf: "PlayerHit \<notin> set (snd (snd (behaviours env u obj)))"
    using firing_events[of PlayerHit env u obj] by auto
  show "(PlayerHit \<in> set (s_events (updateObject env u obj))) = spec_hit (playerPos env) (pos2 obj) (cur env obj)"
    using nf by (simp add: s_events_updateObject c)
  have nb: "ParticleBurst (position (cur env obj)) (burstColor obj) \<notin> set (snd (snd (behaviours env u obj)))"
    using firing_events[of "ParticleBurst (position (cur env obj)) (burstColor obj)" env u obj]
    by (auto simp add: burstColor_def)
  show "(ParticleBurst (position (cur env obj)) (burstColor obj) \<in> set (s_events (updateObject env u obj)))
           = spec_hit (playerPos env) (pos2 obj) (cur env obj)"
    using nb by (simp add: s_events_updateObject c)
qed

lemma pickup_step:
  assumes "active obj" "\<not> isDamageSource (type obj)" "type obj \<noteq> SHOP_PORTAL"
  shows "(\<not> active (s_obj (updateObject env u obj))) =
           (spec_candidate (playerPos env) (pos2 obj) (pos2 (cur env obj))
            \<and> spec_lateral (type obj) (pos0 (cur env obj)) (vx (playerPos env))
            \<and> \<bar>pos1 (cur env obj) - vy (playerPos env)\<bar> < 2.5)"
    and "PlayerHit \<notin> set (s_events (updateObject env u obj))"
proof -
  let ?b = "fst (behaviours env u obj)"
  have c: "collision env (pos2 obj) ?b =
     (if spec_candidate (playerPos env) (pos2 obj) (pos2 (cur env obj))
         \<and> spec_lateral (type obj) (pos0 (cur env obj)) (vx (playerPos env))
         \<and> \<bar>pos1 (cur env obj) - vy (playerPos env)\<bar> < 2.5
      then (?b\<lparr>active := False\<rparr>, True,
            collectEvents ?b @ [ParticleBurst (position ?b) (str_or (color ?b) ''#ffffff'')], True)
      else (?b, True, [], False))"
    using collision_pickup[of ?b env "pos2 obj"] assms by simp
  show "(\<not> active (s_obj (updateObject env u obj))) =
           (spec_candidate (playerPos env) (pos2 obj) (pos2 (cur env obj))
            \<and> spec_lateral (type obj) (pos0 (cur env obj)) (vx (playerPos env))
            \<and> \<bar>pos1 (cur env obj) - vy (playerPos env)\<bar> < 2.5)"
    using assms(1) by (simp add: s_obj_updateObject c)
  have nf: "PlayerHit \<notin> set (snd (snd (behaviours env u obj)))"
    using firing_events[of PlayerHit env u obj] by auto
  show "PlayerHit \<notin> set (s_events (updateObject env u obj))"
    using nf by (simp add: s_events_updateObject c collectEvents_no_hit)
qed

section \<open>Magnet pull, drone tracking, barrier oscillation\<close>

lemma standardMovement_position:
  "position (standardMovement env obj) =
     (pos0 obj, pos1 obj,
      pos2 obj + (if type obj = MISSILE then dist env + MISSILE_SPEED * safeDelta env else dist env))"
  by (simp add: standardMovement_def)

lemma gem_step:
  assumes "type obj = GEM"
  shows "position (s_obj (updateObject env u obj)) =
     (if isMagnetActive env \<and> active obj
         \<and> sqrt ((vx (playerPos env) - pos0 obj) * (vx (playerPos env) - pos0 obj)
                 + (vz (playerPos env) - (pos2 obj + dist env)) * (vz (playerPos env) - (pos2 obj + dist env))) < 40
      then (pos0 obj + (vx (playerPos env) - pos0 obj) * (safeDelta env * 10),
            pos1 obj + (vy (playerPos env) - pos1 obj) * (safeDelta env * 10),
            pos2 obj + dist env + (vz (playerPos env) - (pos2 obj + dist env)) * (safeDelta env * 10))
      else (pos0 obj, pos1 obj, pos2 obj + dist env))"
  using assms
  by (simp add: position_step cur_gem magnetLogic_def standardMovement_position lerp_alt Let_def)

lemma magnet_only_gems: "type obj \<noteq> GEM \<Longrightarrow> magnetLogic env obj = obj"
  by (simp add: magnetLogic_def)

lemma nongem_step_no_magnet:
  assumes "type obj \<noteq> GEM"
  shows "position (s_obj (updateObject env u obj)) =
         position (barrierLogic env (droneLogic env (standardMovement env obj)))"
  using assms by (simp add: position_step cur_def magnet_only_gems)

lemma safeDelta_bounds: "0 < delta env \<Longrightarrow> 0 < safeDelta env \<and> safeDelta env \<le> 0.05"
  by (simp add: safeDelta_def)

lemma shrink: 
  fixes d t :: real
  assumes "0 < t" "t \<le> 1" "d \<noteq> 0"
  shows "\<bar>d - d * t\<bar> < \<bar>d\<bar>"
proof -
  have "d - d * t = d * (1 - t)" by (simp add: algebra_simps)
  then have "\<bar>d - d * t\<bar> = \<bar>d\<bar> * \<bar>1 - t\<bar>" by (simp add: abs_mult)
  moreover have "\<bar>1 - t\<bar> < 1" using assms by (simp add: abs_if)
  moreover have "0 < \<bar>d\<bar>" using assms by simp
  ultimately show ?thesis by simp
qed

lemma drone_step:
  assumes "type obj = DRONE"
  shows "position (s_obj (updateObject env u obj)) =
     (if active obj \<and> pos2 obj + dist env < vz (playerPos env) - 5
      then (pos0 obj + (vx (playerPos env) - pos0 obj) * (safeDelta env * 1.5), pos1 obj, pos2 obj + dist env)
      else (pos0 obj, pos1 obj, pos2 obj + dist env))"
  using assms
  by (simp add: position_step cur_drone droneLogic_def standardMovement_position lerp_alt Let_def)







section \<open>Spawning\<close>

lemma math_min_Min: "zs \<noteq> [] \<Longrightarrow> math_min zs = Min (set zs)"
proof (cases zs)
  case Nil
  assume "zs \<noteq> []"
  with Nil show ?thesis by simp
next
  case (Cons a list)
  then show ?thesis using Min.set_eq_fold[of a list] by simp
qed

lemma furthestZ_spec:
  "furthestZ objs =
     (if {ob \<in> set objs. type ob \<noteq> MISSILE \<and> type ob \<noteq> DRONE} = {} then - 20
      else Min (pos2 ` {ob \<in> set objs. type ob \<noteq> MISSILE \<and> type ob \<noteq> DRONE}))"
proof -
  have eq: "{ob \<in> set objs. type ob \<noteq> MISSILE \<and> type ob \<noteq> DRONE} = set (staticObjects objs)"
    by (simp add: staticObjects_def)
  show ?thesis
  proof (cases "staticObjects objs = []")
    case True
    then show ?thesis unfolding eq by (simp add: furthestZ_def)
  next
    case False
    then have "math_min (map pos2 (staticObjects objs)) = Min (set (map pos2 (staticObjects objs)))"
      by (simp add: math_min_Min)
    then show ?thesis unfolding eq using False by (simp add: furthestZ_def)
  qed
qed

lemma mkObject_fields [simp]:
  "type (mkObject i t p c) = t" "position (mkObject i t p c) = p" "active (mkObject i t p c)"
  "moveDirection (mkObject i t p c) = None" "moveSpeed (mkObject i t p c) = None"
  "hasFired (mkObject i t p c) = None" "points (mkObject i t p c) = None"
  "targetIndex (mkObject i t p c) = None"
  by (simp_all add: mkObject_def)

lemma obstacleRow_z:
  "ob \<in> set (obstacleRow env config spawnZ lanes k u) \<Longrightarrow> pos2 ob = spawnZ \<and> type ob \<noteq> BARRIER"
proof (induction lanes arbitrary: k u)
  case Nil
  then show ?case by simp
next
  case (Cons lane lanes)
  then show ?case by (auto simp add: Let_def split: if_splits)
qed

lemma obstacleSpawn_z: "ob \<in> set (obstacleSpawn env config spawnZ u) \<Longrightarrow> pos2 ob = spawnZ"
  unfolding obstacleSpawn_def Let_def
  by (auto split: if_splits dest: obstacleRow_z)


lemma groundItemSpawn_z:
  "ob \<in> set (groundItemSpawn env config spawnZ u) \<Longrightarrow> pos2 ob = spawnZ \<and> type ob \<noteq> BARRIER"
  unfolding groundItemSpawn_def Let_def
  by (auto split: if_splits)

lemma letterSpawn_z:
  "ob \<in> set (fst (letterSpawn env config spawnZ n u)) \<Longrightarrow> pos2 ob = spawnZ \<and> type ob \<noteq> BARRIER"
  unfolding letterSpawn_def Let_def
  by (auto split: if_splits)

lemma spawnLogic_cases:
  "spawnLogic env d n kept u =
     (if \<not> furthestZ kept > - SPAWN_DISTANCE then ([], n, False)
      else if isLetterDue d n then
        (fst (letterSpawn env (getDifficultyConfig (level env)) (spawnZ_of env kept) n u),
         snd (letterSpawn env (getDifficultyConfig (level env)) (spawnZ_of env kept) n u), True)
      else if random env 0 > 0.1 then
        (if random env 1 < obstacleChance (getDifficultyConfig (level env))
         then obstacleSpawn env (getDifficultyConfig (level env)) (spawnZ_of env kept) u
         else groundItemSpawn env (getDifficultyConfig (level env)) (spawnZ_of env kept) u, n, True)
      else ([], n, False))"
  by (simp add: spawnLogic_def Let_def)

lemma spawnLogic_z: "ob \<in> set (fst (spawnLogic env d n kept u)) \<Longrightarrow> pos2 ob = spawnZ_of env kept"
  by (auto simp add: spawnLogic_cases split: if_splits dest: obstacleSpawn_z groundItemSpawn_z letterSpawn_z)


lemma spawnLogic_gate: "fst (spawnLogic env d n kept u) \<noteq> [] \<Longrightarrow> furthestZ kept > - SPAWN_DISTANCE"
  by (auto simp add: spawnLogic_cases split: if_splits)

lemma spawnZ_of_spec:
  "spawnZ_of env kept =
     min (furthestZ kept - (minGap (getDifficultyConfig (level env)) + speed env * 0.3)) (- 120)"
  by (simp add: spawnZ_of_def SPAWN_DISTANCE_def Let_def)

section \<open>Letters\<close>

lemma length_target: "length target = 6"
  by (simp add: target_def)

lemma availableIndices_set:
  "set (availableIndices env) = {i. i < 6 \<and> i \<notin> set (collectedLetters env)}"
proof -
  have "set (filter (\<lambda>i. i \<notin> set (collectedLetters env)) [0 ..< length target])
          = {i. i < length target \<and> i \<notin> set (collectedLetters env)}"
    by auto
  then show ?thesis by (simp only: availableIndices_def length_target)
qed

lemma availableIndices_distinct: "distinct (availableIndices env)"
  by (simp add: availableIndices_def)

lemma availableIndices_empty:
  "(availableIndices env = []) = (\<not> (\<exists>i<6. i \<notin> set (collectedLetters env)))"
proof -
  have "(availableIndices env = []) = (set (availableIndices env) = {})" by simp
  then show ?thesis by (auto simp add: availableIndices_set)
qed

lemma roll_index:
  fixes r :: real and n :: nat
  assumes "0 \<le> r" "r < 1" "0 < n"
  shows "0 \<le> \<lfloor>r * real n\<rfloor>" "\<lfloor>r * real n\<rfloor> < int n"
proof -
  from assms show "0 \<le> \<lfloor>r * real n\<rfloor>" by simp
  have "r * real n < 1 * real n" using assms by (intro mult_strict_right_mono) simp_all
  then have "r * real n < real_of_int (int n)" by simp
  then show "\<lfloor>r * real n\<rfloor> < int n" by (simp only: floor_less_iff)
qed

lemma roll_uniform:
  fixes r :: real and n k :: nat
  assumes "0 \<le> r" "0 < n"
  shows "(nat \<lfloor>r * real n\<rfloor> = k) = (real k / real n \<le> r \<and> r < (real k + 1) / real n)"
proof -
  have nn: "0 \<le> \<lfloor>r * real n\<rfloor>" using assms by simp
  have "(nat \<lfloor>r * real n\<rfloor> = k) = (\<lfloor>r * real n\<rfloor> = int k)" using nn by auto
  also have "\<dots> = (real_of_int (int k) \<le> r * real n \<and> r * real n < real_of_int (int k) + 1)"
    by (rule floor_eq_iff)
  also have "\<dots> = (real k / real n \<le> r \<and> r < (real k + 1) / real n)"
    using assms(2) by (simp add: pos_divide_le_eq pos_less_divide_eq)
  finally show ?thesis .
qed

lemma letterSpawn_letter:
  assumes "availableIndices env \<noteq> []" "0 \<le> random env 1" "random env 1 < 1"
  shows "\<exists>ob. letterSpawn env config spawnZ n u = ([ob], n + getLetterInterval (level env))
           \<and> type ob = LETTER \<and> active ob
           \<and> targetIndex ob =
               Some (availableIndices env ! nat \<lfloor>random env 1 * real (length (availableIndices env))\<rfloor>)"
proof -
  let ?a = "availableIndices env"
  from assms(1) have len: "0 < length ?a" by simp
  note ri = roll_index[OF assms(2,3) len]
  have "at_index ?a \<lfloor>random env 1 * real (length ?a)\<rfloor> = Some (?a ! nat \<lfloor>random env 1 * real (length ?a)\<rfloor>)"
    using ri by (simp add: at_index_def)
  then show ?thesis using len by (simp add: letterSpawn_def Let_def)
qed

lemma letterSpawn_gem:
  assumes "availableIndices env = []"
  shows "\<exists>ob. letterSpawn env config spawnZ n u = ([ob], n)
           \<and> type ob = GEM \<and> active ob \<and> points ob = Some (gemBaseValue config)"
  using assms by (simp add: letterSpawn_def Let_def)

lemma gemBaseValue_level: "gemBaseValue (getDifficultyConfig lvl) = 50 + (real_of_int lvl - 1) * 10"
  by (simp add: getDifficultyConfig_def)

section \<open>A tick without a player object\<close>

lemma no_player_reads [simp]:
  "playerPos (env\<lparr>playerObj := None\<rparr>) = (0, 0, 0)"
  "playerPos (env\<lparr>playerObj := Some p\<rparr>) = p"
  "safeDelta (env\<lparr>playerObj := a\<rparr>) = safeDelta env"
  "dist (env\<lparr>playerObj := a\<rparr>) = dist env"
  "isMagnetActive (env\<lparr>playerObj := a\<rparr>) = isMagnetActive env"
  "barrierMaxX (env\<lparr>playerObj := a\<rparr>) = barrierMaxX env"
  by (simp_all add: playerPos_def safeDelta_def dist_def isMagnetActive_def barrierMaxX_def)

lemma updateObject_no_player:
  "updateObject (env\<lparr>playerObj := None\<rparr>) u obj = updateObject (env\<lparr>playerObj := Some (0, 0, 0)\<rparr>) u obj"
proof -
  let ?e1 = "env\<lparr>playerObj := None\<rparr>" and ?e2 = "env\<lparr>playerObj := Some (0, 0, 0)\<rparr>"
  have sm: "standardMovement ?e1 = standardMovement ?e2"
    by (simp add: fun_eq_iff standardMovement_def Let_def)
  have ml: "magnetLogic ?e1 = magnetLogic ?e2"
    by (simp add: fun_eq_iff magnetLogic_def Let_def)
  have dl: "droneLogic ?e1 = droneLogic ?e2"
    by (simp add: fun_eq_iff droneLogic_def Let_def)
  have bl: "barrierLogic ?e1 = barrierLogic ?e2"
    by (simp add: fun_eq_iff barrierLogic_def Let_def)
  have be: "behaviours ?e1 u obj = behaviours ?e2 u obj"
    by (simp add: behaviours_def sm ml dl bl)
  have co: "collision ?e1 = collision ?e2"
    by (simp add: fun_eq_iff collision_def inZZone_def isHit_def Let_def)
  show ?thesis by (simp add: updateObject_def be co)
qed

lemma updateLoop_no_player:
  "updateLoop (env\<lparr>playerObj := None\<rparr>) objs st = updateLoop (env\<lparr>playerObj := Some (0, 0, 0)\<rparr>) objs st"
proof (induction objs arbitrary: st)
  case Nil
  show ?case by simp
next
  case (Cons obj rest)
  show ?case by (simp add: updateObject_no_player Cons.IH)
qed

lemma sel_no_player:
  "speed (env\<lparr>playerObj := a\<rparr>) = speed env"
  "level (env\<lparr>playerObj := a\<rparr>) = level env"
  "laneCount (env\<lparr>playerObj := a\<rparr>) = laneCount env"
  "collectedLetters (env\<lparr>playerObj := a\<rparr>) = collectedLetters env"
  "random (env\<lparr>playerObj := a\<rparr>) = random env"
  "uuidv4 (env\<lparr>playerObj := a\<rparr>) = uuidv4 env"
  "shuffled (env\<lparr>playerObj := a\<rparr>) = shuffled env"
  "status (env\<lparr>playerObj := a\<rparr>) = status env"
  by simp_all

lemma obstacleRow_no_player:
  "obstacleRow (env\<lparr>playerObj := a\<rparr>) config spawnZ lanes k u = obstacleRow env config spawnZ lanes k u"
  by (induction lanes arbitrary: k u) (simp_all add: Let_def)

lemma spawnLogic_no_player:
  "spawnLogic (env\<lparr>playerObj := a\<rparr>) d n kept u = spawnLogic env d n kept u"
  unfolding spawnLogic_def spawnZ_of_def letterSpawn_def obstacleSpawn_def groundItemSpawn_def
        availableLanes_def availableIndices_def obstacleRow_no_player sel_no_player
  by (rule refl)

lemma tick_no_player:
  "tick (env\<lparr>playerObj := None\<rparr>) sim = tick (env\<lparr>playerObj := Some (0, 0, 0)\<rparr>) sim"
proof -
  have "updateLoop (env\<lparr>playerObj := None\<rparr>) (objects sim) loopInit
        = updateLoop (env\<lparr>playerObj := Some (0, 0, 0)\<rparr>) (objects sim) loopInit"
    by (rule updateLoop_no_player)
  then show ?thesis unfolding tick_def spawnLogic_no_player sel_no_player no_player_reads by simp
qed

section \<open>Evaluating the concrete inputs\<close>

lemma env0_reads [simp]:
  "safeDelta env0 = 0.05" "dist env0 = 1" "playerPos env0 = (0, 0, 0)" "\<not> isMagnetActive env0"
  "status env0 = PLAYING" "level env0 = 1" "speed env0 = 20" "random env0 k = 0" "laneCount env0 = 3"
  "collectedLetters env0 = []" "uuidv4 env0 k = ''id''" "delta env0 = 0.05" "barrierMaxX env0 = 2.2"
  by (simp_all add: env0_def safeDelta_def dist_def playerPos_def isMagnetActive_def barrierMaxX_def LANE_WIDTH_def)

lemma envMagnet_reads [simp]:
  "safeDelta envMagnet = 0.05" "dist envMagnet = 1" "playerPos envMagnet = (0, 0, 0)" "isMagnetActive envMagnet"
  "delta envMagnet = 0.05"
  by (simp_all add: envMagnet_def env0_def safeDelta_def dist_def playerPos_def isMagnetActive_def)

lemma env5_reads [simp]:
  "level env5 = 5" "speed env5 = 20" "random env5 k = 0.15" "laneCount env5 = 3" "uuidv4 env5 k = ''id''"
  by (simp_all add: env5_def env0_def)

lemma envAll_reads [simp]:
  "level envAll = 1" "speed envAll = 20" "random envAll k = 0" "laneCount envAll = 3" "uuidv4 envAll k = ''id''"
  "collectedLetters envAll = [0, 1, 2, 3, 4, 5]"
  by (simp_all add: envAll_def env0_def)

lemma example_fields [simp]:
  "type obstacle0 = OBSTACLE" "active obstacle0" "position obstacle0 = (0, 0.8, - 1)"
  "type deadObstacle = OBSTACLE" "\<not> active deadObstacle" "position deadObstacle = (0, 0.8, - 1)"
  "type obstacleFar = OBSTACLE" "active obstacleFar" "position obstacleFar = (0, 0.8, - 130)"
  "type turret0 = TURRET" "active turret0" "position turret0 = (2.2, 0.2, - 80.5)" "hasFired turret0 = Some False"
  "type drone0 = DRONE" "active drone0" "position drone0 = (2.2, 1.5, - 11)"
  "type drone1 = DRONE" "active drone1" "position drone1 = (2.2, 1.5, - 10)"
  "type drone2 = DRONE" "active drone2" "position drone2 = (2.2, 1.5, - 4)"
  "type gem0 = GEM" "active gem0" "position gem0 = (35, 1.2, - 1)"
  "type gem1 = GEM" "active gem1" "position gem1 = (0, 1.2, - 1)"
  "type barrier0 = BARRIER" "active barrier0" "position barrier0 = (2, 1.25, - 50)"
  "moveDirection barrier0 = Some 1" "moveSpeed barrier0 = Some 8"
  by (simp_all add: obstacle0_def deadObstacle_def obstacleFar_def turret0_def drone0_def drone1_def
        drone2_def gem0_def gem1_def barrier0_def mkObject_def)

lemma loopSteps_single: "loopSteps env [obj] u = [updateObject env u obj]"
  by (simp add: Let_def)

lemma hit_obstacle0: "spec_hit (0, 0, 0) (- 1) (cur env0 obstacle0)"
  by (simp add: spec_hit_def spec_candidate_def spec_lateral_def spec_overlap_def cur_other standardMovement_position)

lemma step_obstacle0:
  "updateObject env0 u obstacle0 =
     \<lparr> s_obj = obstacle0\<lparr>position := (0, 0.8, 0), active := False\<rparr>, s_keep = True, s_spawns = [],
       s_events = [PlayerHit, ParticleBurst (0, 0.8, 0) ''#ff4400''], s_changed = True \<rparr>"
proof -
  have q: "\<not> fires env0 obstacle0" by (simp add: fires_def)
  have cu: "cur env0 obstacle0 = obstacle0\<lparr>position := (0, 0.8, 0)\<rparr>"
    by (simp add: cur_other standardMovement_def)
  have c: "collision env0 (- 1) (cur env0 obstacle0) =
     ((cur env0 obstacle0)\<lparr>active := False\<rparr>, True,
      [PlayerHit, ParticleBurst (position (cur env0 obstacle0)) (burstColor (cur env0 obstacle0))], True)"
    using hit_obstacle0 by (simp add: collision_damage isDamageSource_def)
  show ?thesis
    by (simp add: updateObject_alt behaviours_quiet[OF q] c Let_def)
       (simp add: cu burstColor_def REMOVE_DISTANCE_def)
qed

lemma furthestZ_single:
  "type ob \<noteq> MISSILE \<Longrightarrow> type ob \<noteq> DRONE \<Longrightarrow> furthestZ [ob] = pos2 ob"
  by (simp add: furthestZ_def staticObjects_def)

lemma furthestZ_empty: "furthestZ [] = - 20"
  by (simp add: furthestZ_def staticObjects_def)

lemma spawn_skipped:
  assumes "\<not> isLetterDue d n" "\<not> random env 0 > 0.1"
  shows "spawnLogic env d n kept u = ([], n, False)"
  using assms by (simp add: spawnLogic_cases)

lemma spawn_gated:
  assumes "\<not> furthestZ kept > - SPAWN_DISTANCE"
  shows "spawnLogic env d n kept u = ([], n, False)"
  using assms by (simp add: spawnLogic_cases)

lemma tick_sim0:
  "tick env0 sim0 =
     (\<lparr> objects = [obstacle0\<lparr>position := (0, 0.8, 0), active := False\<rparr>],
        distanceTraveled = 1, nextLetterDistance = 200 \<rparr>,
      [PlayerHit, ParticleBurst (0, 0.8, 0) ''#ff4400''])"
proof -
  have sp: "spawnLogic env0 1 200 kept u = ([], 200, False)" for kept u
    by (rule spawn_skipped) (simp_all add: isLetterDue_def)
  show ?thesis
    by (simp add: tick_alt updateLoop_init sim0_def loopSteps_single step_obstacle0 sp Let_def)
qed

text \<open>A tick on a registry holding one inactive obstacle that is not yet past the removal distance.\<close>

lemma tick_inactive_obstacle:
  assumes "type ob = OBSTACLE" "\<not> active ob" "pos2 ob + 1 \<le> 20" "d + 1 < n"
  shows "tick env0 \<lparr> objects = [ob], distanceTraveled = d, nextLetterDistance = n \<rparr> =
     (\<lparr> objects = [ob\<lparr>position := (pos0 ob, pos1 ob, pos2 ob + 1)\<rparr>],
        distanceTraveled = d + 1, nextLetterDistance = n \<rparr>, [])"
proof -
  have sp: "spawnLogic env0 (d + 1) n kept u = ([], n, False)" for kept u
    using assms(4) by (intro spawn_skipped) (simp_all add: isLetterDue_def)
  have sm: "standardMovement env0 ob = ob\<lparr>position := (pos0 ob, pos1 ob, pos2 ob + 1)\<rparr>"
    using assms(1) by (simp add: standardMovement_def)
  have st: "updateObject env0 0 ob =
     \<lparr> s_obj = ob\<lparr>position := (pos0 ob, pos1 ob, pos2 ob + 1)\<rparr>, s_keep = True, s_spawns = [],
       s_events = [], s_changed = False \<rparr>"
    using assms(3) by (simp add: inactive_step[OF assms(2)] sm REMOVE_DISTANCE_def)
  show ?thesis
    by (simp add: tick_alt updateLoop_init loopSteps_single st sp Let_def)
qed

section \<open>Further facts used by the claims\<close>

lemma fires_turret0: "fires env0 turret0"
  by (simp add: fires_def cur_other standardMovement_position)

lemma cur_turret0: "position (cur env0 turret0) = (2.2, 0.2, - 79.5)"
  by (simp add: cur_other standardMovement_position)

lemma step_turret0:
  "s_spawns (updateObject env0 0 turret0) = [missile ''id'' (2.2, 0.8, - 77.5) ''#ffaa00'']"
  by (simp add: s_spawns_updateObject behaviours_fires[OF fires_turret0] cur_turret0)

lemma spawnLogic_due:
  assumes "furthestZ kept > - SPAWN_DISTANCE" "isLetterDue d n"
  shows "spawnLogic env d n kept u =
     (fst (letterSpawn env (getDifficultyConfig (level env)) (spawnZ_of env kept) n u),
      snd (letterSpawn env (getDifficultyConfig (level env)) (spawnZ_of env kept) n u), True)"
  using assms by (simp add: spawnLogic_cases)

lemma spawn_env5:
  "fst (spawnLogic env5 0 200 [] 0) =
     [(mkObject ''id'' BARRIER (- 2.2, 1.25, - 120) ''#ff6600'')
        \<lparr> moveDirection := Some (- 1), moveSpeed := Some 5.5 \<rparr>]"
proof -
  have z: "spawnZ_of env5 [] = - 120"
    by (simp add: spawnZ_of_spec furthestZ_empty getDifficultyConfig_def)
  have o: "obstacleSpawn env5 (getDifficultyConfig 5) (- 120) 0 =
     [(mkObject ''id'' BARRIER (- 2.2, 1.25, - 120) ''#ff6600'')
        \<lparr> moveDirection := Some (- 1), moveSpeed := Some 5.5 \<rparr>]"
    by (simp add: obstacleSpawn_def getRandomLane_def LANE_WIDTH_def)
  have c: "obstacleChance (getDifficultyConfig 5) = 0.45" by (simp add: getDifficultyConfig_def)
  show ?thesis
    by (simp add: spawnLogic_cases furthestZ_empty SPAWN_DISTANCE_def isLetterDue_def z o c)
qed

lemma step_obstacleFar:
  "updateObject env0 0 obstacleFar =
     \<lparr> s_obj = obstacleFar\<lparr>position := (0, 0.8, - 129)\<rparr>, s_keep = True, s_spawns = [],
       s_events = [], s_changed = False \<rparr>"
proof -
  have q: "\<not> fires env0 obstacleFar" by (simp add: fires_def)
  have cu: "cur env0 obstacleFar = obstacleFar\<lparr>position := (0, 0.8, - 129)\<rparr>"
    by (simp add: cur_other standardMovement_def)
  have nh: "\<not> spec_hit (0, 0, 0) (- 130) (cur env0 obstacleFar)"
    by (simp add: spec_hit_def spec_candidate_def cu)
  have c: "collision env0 (- 130) (cur env0 obstacleFar) = (cur env0 obstacleFar, True, [], False)"
    using nh by (simp add: collision_damage isDamageSource_def)
  show ?thesis
    by (simp add: updateObject_alt behaviours_quiet[OF q] c Let_def)
       (simp add: cu REMOVE_DISTANCE_def)
qed

lemma near_gem0:
  "sqrt ((vx (playerPos envMagnet) - pos0 gem0) * (vx (playerPos envMagnet) - pos0 gem0)
         + (vz (playerPos envMagnet) - (pos2 gem0 + dist envMagnet))
           * (vz (playerPos envMagnet) - (pos2 gem0 + dist envMagnet))) < 40"
  by (simp add: real_less_lsqrt)

lemma availableIndices_env0: "availableIndices env0 = [0, 1, 2, 3, 4, 5]"
  by (simp add: availableIndices_def target_def upt_rec_numeral)

lemma events_turret0:
  "ParticleBurst (2.2, 0.2, - 79.5) ''#ffaa00'' \<in> set (s_events (updateObject env0 0 turret0))"
  by (simp add: s_events_updateObject behaviours_fires[OF fires_turret0] cur_turret0)

lemma spawnLogic_unchanged: "\<not> snd (snd (spawnLogic env d n kept u)) \<Longrightarrow> fst (spawnLogic env d n kept u) = []"
  by (simp add: spawnLogic_cases split: if_splits)

lemma tick_objects:
  assumes "status env = PLAYING"
  shows "objects (fst (tick env sim)) =
           map s_obj (filter s_keep (loopSteps env (objects sim) 0))
           @ concat (map s_spawns (loopSteps env (objects sim) 0))
           @ fst (spawnLogic env (distanceTraveled sim + dist env) (nextLetterDistance sim)
                   (map s_obj (filter s_keep (loopSteps env (objects sim) 0))
                    @ concat (map s_spawns (loopSteps env (objects sim) 0)))
                   (length (concat (map s_spawns (loopSteps env (objects sim) 0)))))"
proof -
  let ?st = "updateLoop env (objects sim) loopInit"
  let ?sp = "spawnLogic env (distanceTraveled sim + dist env) (nextLetterDistance sim)
                   (keptObjects ?st @ newSpawns ?st) (length (newSpawns ?st))"
  have flds: "keptObjects ?st = map s_obj (filter s_keep (loopSteps env (objects sim) 0))"
    "newSpawns ?st = concat (map s_spawns (loopSteps env (objects sim) 0))"
    by (simp_all add: updateLoop_init)
  have "objects (fst (tick env sim)) = keptObjects ?st @ newSpawns ?st @ fst ?sp"
  proof (cases "hasChanges ?st \<or> snd (snd ?sp)")
    case True
    then show ?thesis by (simp add: tick_alt[OF assms] Let_def)
  next
    case False
    then have nc: "\<not> hasChanges ?st" and ns: "\<not> snd (snd ?sp)" by simp_all
    from unchanged_loop[OF nc] spawnLogic_unchanged[OF ns] False
    show ?thesis by (simp add: tick_alt[OF assms] Let_def)
  qed
  then show ?thesis by (simp only: flds)
qed

lemma letter_due_open_gate:
  assumes "furthestZ kept > - 120" and "isLetterDue d n"
    and "0 \<le> random env 1" and "random env 1 < 1"
  shows "((\<exists>i<6. i \<notin> set (collectedLetters env)) \<longrightarrow>
           length (fst (spawnLogic env d n kept u)) = 1
           \<and> type (hd (fst (spawnLogic env d n kept u))) = LETTER
           \<and> (\<exists>i. targetIndex (hd (fst (spawnLogic env d n kept u))) = Some i
                  \<and> i < 6 \<and> i \<notin> set (collectedLetters env))
           \<and> (\<forall>k < length (availableIndices env).
                 (targetIndex (hd (fst (spawnLogic env d n kept u))) = Some (availableIndices env ! k))
                 = (real k / real (length (availableIndices env)) \<le> random env 1
                    \<and> random env 1 < (real k + 1) / real (length (availableIndices env))))
           \<and> fst (snd (spawnLogic env d n kept u)) = n + getLetterInterval (level env))
       \<and> (\<not> (\<exists>i<6. i \<notin> set (collectedLetters env)) \<longrightarrow>
           length (fst (spawnLogic env d n kept u)) = 1
           \<and> type (hd (fst (spawnLogic env d n kept u))) = GEM
           \<and> points (hd (fst (spawnLogic env d n kept u))) = Some (50 + (real_of_int (level env) - 1) * 10)
           \<and> fst (snd (spawnLogic env d n kept u)) = n)
       \<and> set (availableIndices env) = {i. i < 6 \<and> i \<notin> set (collectedLetters env)}
       \<and> distinct (availableIndices env)
       \<and> getLetterInterval (level env) = 200 * (1 + (real_of_int (level env) - 1) * 0.4)"
proof -
  let ?a = "availableIndices env"
  let ?cfg = "getDifficultyConfig (level env)"
  let ?j = "nat \<lfloor>random env 1 * real (length ?a)\<rfloor>"
  have gate: "furthestZ kept > - SPAWN_DISTANCE" using assms(1) by (simp add: SPAWN_DISTANCE_def)
  note sp = spawnLogic_due[OF gate assms(2), of env u]
  have letter: "(\<exists>i<6. i \<notin> set (collectedLetters env)) \<longrightarrow>
           length (fst (spawnLogic env d n kept u)) = 1
           \<and> type (hd (fst (spawnLogic env d n kept u))) = LETTER
           \<and> (\<exists>i. targetIndex (hd (fst (spawnLogic env d n kept u))) = Some i
                  \<and> i < 6 \<and> i \<notin> set (collectedLetters env))
           \<and> (\<forall>k < length ?a.
                 (targetIndex (hd (fst (spawnLogic env d n kept u))) = Some (?a ! k))
                 = (real k / real (length ?a) \<le> random env 1
                    \<and> random env 1 < (real k + 1) / real (length ?a)))
           \<and> fst (snd (spawnLogic env d n kept u)) = n + getLetterInterval (level env)"
  proof
    assume "\<exists>i<6. i \<notin> set (collectedLetters env)"
    then have ne: "?a \<noteq> []" by (simp add: availableIndices_empty)
    then have len: "0 < length ?a" by simp
    from letterSpawn_letter[OF ne assms(3,4), of ?cfg "spawnZ_of env kept" n u]
    obtain ob where ob: "letterSpawn env ?cfg (spawnZ_of env kept) n u = ([ob], n + getLetterInterval (level env))"
      "type ob = LETTER" "targetIndex ob = Some (?a ! ?j)"
      by blast
    have j: "?j < length ?a" using roll_index[OF assms(3,4) len] by (simp add: nat_less_iff)
    then have mem: "?a ! ?j \<in> set ?a" by simp
    then have good: "?a ! ?j < 6 \<and> ?a ! ?j \<notin> set (collectedLetters env)"
      by (simp add: availableIndices_set)
    have uni: "\<forall>k < length ?a. (Some (?a ! ?j) = Some (?a ! k))
                 = (real k / real (length ?a) \<le> random env 1
                    \<and> random env 1 < (real k + 1) / real (length ?a))"
    proof (intro allI impI)
      fix k assume k: "k < length ?a"
      have "(?a ! ?j = ?a ! k) = (?j = k)"
        using nth_eq_iff_index_eq[OF availableIndices_distinct j k] .
      then show "(Some (?a ! ?j) = Some (?a ! k))
                 = (real k / real (length ?a) \<le> random env 1
                    \<and> random env 1 < (real k + 1) / real (length ?a))"
        using roll_uniform[OF assms(3) len, of k] by simp
    qed
    from ob good uni show "length (fst (spawnLogic env d n kept u)) = 1
           \<and> type (hd (fst (spawnLogic env d n kept u))) = LETTER
           \<and> (\<exists>i. targetIndex (hd (fst (spawnLogic env d n kept u))) = Some i
                  \<and> i < 6 \<and> i \<notin> set (collectedLetters env))
           \<and> (\<forall>k < length ?a.
                 (targetIndex (hd (fst (spawnLogic env d n kept u))) = Some (?a ! k))
                 = (real k / real (length ?a) \<le> random env 1
                    \<and> random env 1 < (real k + 1) / real (length ?a)))
           \<and> fst (snd (spawnLogic env d n kept u)) = n + getLetterInterval (level env)"
      by (simp add: sp)
  qed
  have gem: "\<not> (\<exists>i<6. i \<notin> set (collectedLetters env)) \<longrightarrow>
           length (fst (spawnLogic env d n kept u)) = 1
           \<and> type (hd (fst (spawnLogic env d n kept u))) = GEM
           \<and> points (hd (fst (spawnLogic env d n kept u))) = Some (50 + (real_of_int (level env) - 1) * 10)
           \<and> fst (snd (spawnLogic env d n kept u)) = n"
  proof
    assume "\<not> (\<exists>i<6. i \<notin> set (collectedLetters env))"
    then have e: "?a = []" by (simp add: availableIndices_empty)
    from letterSpawn_gem[OF e, of ?cfg "spawnZ_of env kept" n u]
    obtain ob where ob: "letterSpawn env ?cfg (spawnZ_of env kept) n u = ([ob], n)"
      "type ob = GEM" "points ob = Some (gemBaseValue ?cfg)"
      by blast
    then show "length (fst (spawnLogic env d n kept u)) = 1
           \<and> type (hd (fst (spawnLogic env d n kept u))) = GEM
           \<and> points (hd (fst (spawnLogic env d n kept u))) = Some (50 + (real_of_int (level env) - 1) * 10)
           \<and> fst (snd (spawnLogic env d n kept u)) = n"
      by (simp add: sp gemBaseValue_level)
  qed
  have li: "getLetterInterval (level env) = 200 * (1 + (real_of_int (level env) - 1) * 0.4)"
    by (simp add: getLetterInterval_def BASE_LETTER_INTERVAL_def)
  from letter gem availableIndices_set[of env] availableIndices_distinct[of env] li
  show ?thesis by blast
qed

section \<open>The claims of the specification\<close>

text \<open>
  Claim C1.  As stated: an entity deactivated in tick N is excluded from collision checks in
  every later tick, and the end-of-tick compaction removes it from the registry by tick N+2
  at the latest; equivalently, compaction removes every entity that is inactive or whose
  forward coordinate exceeds the removal distance 20.

  The loop drops an entity only when its forward coordinate exceeds 20 or when it is a shop
  portal triggered in this tick; an entity deactivated by a hit or a pickup keeps
  \<^verbatim>\<open>keep = true\<close>.  What holds: an inactive entity stays inactive in every later tick, is
  not collision-checked, fires nothing and emits no event, and the only thing a tick changes
  in it is its forward coordinate, by the tick's advance (the world distance, for a missile
  plus the missile speed; magnet, drone and barrier logic skip it: every other field, the lane and vertical coordinates included, stays as it was);
  the loop keeps an entity exactly when its forward coordinate after this tick's movement
  is at most 20 and it is not a shop portal triggered in this tick, so an inactive entity stays
  in the registry until its forward coordinate exceeds 20; and the registry after a tick is
  the kept entities in their order, then the missiles fired, then the planned spawns.
\<close>

theorem C1_inactive_entities_stay_until_removal_distance:
  "(\<not> active obj \<longrightarrow>
      (\<forall>r \<in> set (trajectory ts obj).
          \<not> active (s_obj r) \<and> s_events r = [] \<and> s_spawns r = []
          \<and> s_obj r = obj\<lparr>position := (pos0 obj, pos1 obj, pos2 (s_obj r))\<rparr>))
   \<and> (\<not> active obj \<longrightarrow>
        s_obj (updateObject env u obj) =
          obj\<lparr>position := (pos0 obj, pos1 obj,
                 pos2 obj + (if type obj = MISSILE then dist env + MISSILE_SPEED * safeDelta env
                             else dist env))\<rparr>
        \<and> s_events (updateObject env u obj) = [] \<and> s_spawns (updateObject env u obj) = [])
   \<and> s_keep (updateObject env u obj) =
       (\<not> pos2 (cur env obj) > 20
        \<and> \<not> (active obj \<and> type obj = SHOP_PORTAL \<and> \<bar>pos2 (cur env obj) - vz (playerPos env)\<bar> < 2))
   \<and> (\<not> active obj \<longrightarrow> s_keep (updateObject env u obj) = (pos2 (cur env obj) \<le> 20))
   \<and> (status env = PLAYING \<longrightarrow>
        objects (fst (tick env sim)) =
           map s_obj (filter s_keep (loopSteps env (objects sim) 0))
           @ concat (map s_spawns (loopSteps env (objects sim) 0))
           @ fst (spawnLogic env (distanceTraveled sim + dist env) (nextLetterDistance sim)
                   (map s_obj (filter s_keep (loopSteps env (objects sim) 0))
                    @ concat (map s_spawns (loopSteps env (objects sim) 0)))
                   (length (concat (map s_spawns (loopSteps env (objects sim) 0))))))"
proof -
  have a: "\<not> active obj \<longrightarrow>
      (\<forall>r \<in> set (trajectory ts obj).
          \<not> active (s_obj r) \<and> s_events r = [] \<and> s_spawns r = []
          \<and> s_obj r = obj\<lparr>position := (pos0 obj, pos1 obj, pos2 (s_obj r))\<rparr>)"
    using inactive_trajectory[of obj _ ts] inactive_trajectory_frame[of obj _ ts] by blast
  have a': "\<not> active obj \<longrightarrow>
        s_obj (updateObject env u obj) =
          obj\<lparr>position := (pos0 obj, pos1 obj,
                 pos2 obj + (if type obj = MISSILE then dist env + MISSILE_SPEED * safeDelta env
                             else dist env))\<rparr>
        \<and> s_events (updateObject env u obj) = [] \<and> s_spawns (updateObject env u obj) = []"
    using inactive_s_obj[of obj env u] by (simp add: inactive_step)
  have b: "s_keep (updateObject env u obj) =
       (\<not> pos2 (cur env obj) > 20
        \<and> \<not> (active obj \<and> type obj = SHOP_PORTAL \<and> \<bar>pos2 (cur env obj) - vz (playerPos env)\<bar> < 2))"
    by (simp add: s_keep_updateObject REMOVE_DISTANCE_def)
  have c: "\<not> active obj \<longrightarrow> s_keep (updateObject env u obj) = (pos2 (cur env obj) \<le> 20)"
    by (auto simp add: s_keep_updateObject REMOVE_DISTANCE_def)
  from a a' b c tick_objects[of env sim] show ?thesis by blast
qed

text \<open>
  An instance: the inactive obstacle one unit ahead of the player stays inactive, emits
  nothing, only advances by one unit and is kept by the tick.
\<close>

theorem C1_witness:
  "\<not> active deadObstacle
   \<and> \<not> active (s_obj (updateObject env0 0 deadObstacle))
   \<and> s_events (updateObject env0 0 deadObstacle) = []
   \<and> s_obj (updateObject env0 0 deadObstacle) = deadObstacle\<lparr>position := (0, 0.8, 0)\<rparr>
   \<and> s_keep (updateObject env0 0 deadObstacle)
   \<and> status env0 = PLAYING
   \<and> objects (fst (tick env0 sim0)) = [obstacle0\<lparr>position := (0, 0.8, 0), active := False\<rparr>]"
proof -
  have m: "updateObject env0 0 deadObstacle \<in> set (trajectory [(env0, 0)] deadObstacle)"
    by (simp add: Let_def)
  have z: "pos2 (cur env0 deadObstacle) \<le> 20"
    by (simp add: cur_inactive standardMovement_position)
  have sp: "spawnLogic env0 1 200 kept u = ([], 200, False)" for kept u
    by (rule spawn_skipped) (simp_all add: isLetterDue_def)
  have o: "objects (fst (tick env0 sim0)) = [obstacle0\<lparr>position := (0, 0.8, 0), active := False\<rparr>]"
    using C1_inactive_entities_stay_until_removal_distance[of deadObstacle "[]" env0 0 sim0]
    by (simp add: sim0_def loopSteps_single step_obstacle0 sp)
  from C1_inactive_entities_stay_until_removal_distance[of deadObstacle "[(env0, 0)]" env0 0 sim0] m z o
  show ?thesis by simp
qed

text \<open>
  Against the claim as stated: the obstacle in the player's lane is hit and deactivated in
  the first tick, and it is still in the registry, inactive, after that tick, after the
  next one and after the one after that.
\<close>

theorem C1_counterexample:
  "active obstacle0
   \<and> objects (fst (tick env0 sim0)) = [obstacle0\<lparr>position := (0, 0.8, 0), active := False\<rparr>]
   \<and> objects (fst (tick env0 (fst (tick env0 sim0)))) = [obstacle0\<lparr>position := (0, 0.8, 1), active := False\<rparr>]
   \<and> objects (fst (tick env0 (fst (tick env0 (fst (tick env0 sim0))))))
        = [obstacle0\<lparr>position := (0, 0.8, 2), active := False\<rparr>]"
proof -
  have t1: "fst (tick env0 sim0) =
     \<lparr> objects = [obstacle0\<lparr>position := (0, 0.8, 0), active := False\<rparr>],
       distanceTraveled = 1, nextLetterDistance = 200 \<rparr>"
    by (simp add: tick_sim0)
  have t2: "fst (tick env0 \<lparr> objects = [obstacle0\<lparr>position := (0, 0.8, 0), active := False\<rparr>],
                        distanceTraveled = 1, nextLetterDistance = 200 \<rparr>) =
     \<lparr> objects = [obstacle0\<lparr>position := (0, 0.8, 1), active := False\<rparr>],
       distanceTraveled = 2, nextLetterDistance = 200 \<rparr>"
    using tick_inactive_obstacle[of "obstacle0\<lparr>position := (0, 0.8, 0), active := False\<rparr>" 1 200]
    by simp
  have t3: "fst (tick env0 \<lparr> objects = [obstacle0\<lparr>position := (0, 0.8, 1), active := False\<rparr>],
                        distanceTraveled = 2, nextLetterDistance = 200 \<rparr>) =
     \<lparr> objects = [obstacle0\<lparr>position := (0, 0.8, 2), active := False\<rparr>],
       distanceTraveled = 3, nextLetterDistance = 200 \<rparr>"
    using tick_inactive_obstacle[of "obstacle0\<lparr>position := (0, 0.8, 1), active := False\<rparr>" 2 200]
    by simp
  show ?thesis unfolding t1 t2 t3 by simp
qed

text \<open>
  Claim C2.  For every active entity that is not a shop portal, on every tick: it is an
  interaction candidate if and only if its forward coordinate before this tick's movement is
  less than the player's forward coordinate + 2.0 and its current forward coordinate is
  greater than the player's forward coordinate - 2.0; within that window the lateral test is
  an absolute lane-axis distance below 1.5 for Magnet and Shield and below 0.9 for every
  other type; and a damage source registers a hit (it is deactivated, the damage signal and
  the destruction effect are emitted) if and only if, in addition, the player's vertical
  interval from \<open>y\<close> to \<open>y + 1.8\<close> overlaps the band of the entity's type (Obstacle 0 to 1.6,
  Missile 0.5 to 1.5, LaserGate 0.5 to 1.2, Barrier 0 to 2.5, SpikeFloor 0 to 0.8, Turret
  0 to 0.8, otherwise the entity's vertical coordinate - 0.5 to + 0.5).  Overlap is proper
  overlap: intervals that only touch at an end point do not overlap.  The current
  coordinates are those of \<open>cur\<close>, after this tick's movement.  An entity that is not a
  damage source is collected under the same window and lateral test, with a vertical
  distance below 2.5, and never emits the damage signal.
\<close>

theorem C2_collision_window_lateral_and_vertical_tests:
  assumes "active obj" and "type obj \<noteq> SHOP_PORTAL"
  shows "inZZone env (pos2 obj) (cur env obj) = spec_candidate (playerPos env) (pos2 obj) (pos2 (cur env obj))
   \<and> (isDamageSource (type obj) \<longrightarrow>
        (\<not> active (s_obj (updateObject env u obj))) = spec_hit (playerPos env) (pos2 obj) (cur env obj)
        \<and> (PlayerHit \<in> set (s_events (updateObject env u obj)))
            = spec_hit (playerPos env) (pos2 obj) (cur env obj)
        \<and> (ParticleBurst (position (cur env obj)) (burstColor obj) \<in> set (s_events (updateObject env u obj)))
            = spec_hit (playerPos env) (pos2 obj) (cur env obj))
   \<and> (\<not> isDamageSource (type obj) \<longrightarrow>
        (\<not> active (s_obj (updateObject env u obj))) =
           (spec_candidate (playerPos env) (pos2 obj) (pos2 (cur env obj))
            \<and> spec_lateral (type obj) (pos0 (cur env obj)) (vx (playerPos env))
            \<and> \<bar>pos1 (cur env obj) - vy (playerPos env)\<bar> < 2.5)
        \<and> PlayerHit \<notin> set (s_events (updateObject env u obj)))"
  using damage_step[OF assms(1), of env u] pickup_step[OF assms(1) _ assms(2), of env u]
  by (simp add: inZZone_spec)

text \<open>
  Instances: the obstacle one unit ahead in the player's lane is a hit; the gem at the same
  place is collected.
\<close>

theorem C2_witness:
  "active obstacle0 \<and> type obstacle0 \<noteq> SHOP_PORTAL \<and> isDamageSource (type obstacle0)
   \<and> spec_hit (playerPos env0) (pos2 obstacle0) (cur env0 obstacle0)
   \<and> PlayerHit \<in> set (s_events (updateObject env0 0 obstacle0))
   \<and> \<not> active (s_obj (updateObject env0 0 obstacle0))
   \<and> active gem1 \<and> type gem1 \<noteq> SHOP_PORTAL \<and> \<not> isDamageSource (type gem1)
   \<and> \<not> active (s_obj (updateObject env0 0 gem1))"
proof -
  have d: "isDamageSource (type obstacle0)" by (simp add: isDamageSource_def)
  have h: "spec_hit (playerPos env0) (pos2 obstacle0) (cur env0 obstacle0)"
    using hit_obstacle0 by simp
  have g: "\<not> isDamageSource (type gem1)" by (simp add: isDamageSource_def)
  have p: "spec_candidate (playerPos env0) (pos2 gem1) (pos2 (cur env0 gem1))
            \<and> spec_lateral (type gem1) (pos0 (cur env0 gem1)) (vx (playerPos env0))
            \<and> \<bar>pos1 (cur env0 gem1) - vy (playerPos env0)\<bar> < 2.5"
    by (simp add: spec_candidate_def spec_lateral_def cur_gem magnetLogic_def standardMovement_position)
  from C2_collision_window_lateral_and_vertical_tests[of obstacle0 env0 0] d h
       C2_collision_window_lateral_and_vertical_tests[of gem1 env0 0] g p
  show ?thesis by simp
qed

text \<open>
  Claim C3.  On every spawn-phase tick: the spawn horizon is the minimum forward coordinate
  over the entities that are neither Missile nor Drone, or the fallback - 20 when there is no
  such entity; something is spawned only if the horizon is greater than - 120; and every
  entity spawned is placed at the forward coordinate
  \<open>min (horizon - (minGap + speed * 0.3)) (- 120)\<close>, with \<open>minGap\<close> the difficulty
  model's value for the level.  The list \<open>kept\<close> is the working set the spawn phase reads.
\<close>

theorem C3_spawn_horizon_gate_and_spacing:
  "furthestZ kept =
     (if {ob \<in> set kept. type ob \<noteq> MISSILE \<and> type ob \<noteq> DRONE} = {} then - 20
      else Min (pos2 ` {ob \<in> set kept. type ob \<noteq> MISSILE \<and> type ob \<noteq> DRONE}))
   \<and> (fst (spawnLogic env d n kept u) \<noteq> [] \<longrightarrow> furthestZ kept > - 120)
   \<and> (\<forall>ob \<in> set (fst (spawnLogic env d n kept u)).
         pos2 ob = min (furthestZ kept - (minGap (getDifficultyConfig (level env)) + speed env * 0.3)) (- 120))"
proof -
  have a: "fst (spawnLogic env d n kept u) \<noteq> [] \<longrightarrow> furthestZ kept > - 120"
    using spawnLogic_gate[of env d n kept u] by (simp add: SPAWN_DISTANCE_def)
  have b: "\<forall>ob \<in> set (fst (spawnLogic env d n kept u)).
         pos2 ob = min (furthestZ kept - (minGap (getDifficultyConfig (level env)) + speed env * 0.3)) (- 120)"
    using spawnLogic_z[of _ env d n kept u] by (simp add: spawnZ_of_spec)
  from furthestZ_spec[of kept] a b show ?thesis by blast
qed

text \<open>
  An instance: at level 5 on an empty registry the horizon is the fallback, the gate is open
  and the barrier that is spawned stands at - 120.
\<close>

theorem C3_witness:
  "fst (spawnLogic env5 0 200 [] 0) \<noteq> []
   \<and> furthestZ [] > - 120
   \<and> hd (fst (spawnLogic env5 0 200 [] 0)) \<in> set (fst (spawnLogic env5 0 200 [] 0))
   \<and> pos2 (hd (fst (spawnLogic env5 0 200 [] 0))) = - 120"
proof -
  have ne: "fst (spawnLogic env5 0 200 [] 0) \<noteq> []" by (simp add: spawn_env5)
  then have m: "hd (fst (spawnLogic env5 0 200 [] 0)) \<in> set (fst (spawnLogic env5 0 200 [] 0))"
    by simp
  have g: "minGap (getDifficultyConfig (level env5)) = 11.5" by (simp add: getDifficultyConfig_def)
  from C3_spawn_horizon_gate_and_spacing[of "[]" env5 0 200 0] ne m g
  show ?thesis by (simp add: furthestZ_empty)
qed

text \<open>
  Claim C4.  As stated: on every tick where the letter-due condition holds (the cumulative
  distance has reached the next-letter threshold), if some letter index is not in the
  collected set, exactly one Letter is spawned, its target index chosen uniformly from the
  unclaimed indices, and the threshold advances by the level-scaled letter interval; if no
  unclaimed index remains, a Gem with the level's base value is spawned instead.

  The letter branch lies inside the spawn gate \<^verbatim>\<open>if (furthestZ > -SPAWN_DISTANCE)\<close>: on a
  tick where the horizon is at - 120 or farther nothing is spawned and the threshold stays,
  whether a letter is due or not.  What holds, for a roll of \<^verbatim>\<open>Math.random\<close> in the interval
  from 0 (included) to 1 (excluded): on every tick where the gate is open and a letter is
  due, the claim's two cases.  Uniformly means: with \<open>n\<close> unclaimed indices, the \<open>k\<close>-th of
  them is chosen exactly when the roll lies between \<open>k / n\<close> (included) and \<open>(k + 1) / n\<close>
  (excluded), an interval of length \<open>1 / n\<close> for each.  And on every tick where the gate
  is closed, whatever else holds, the spawn phase spawns nothing and leaves the threshold as
  it was.
\<close>

theorem C4_letter_due_when_spawn_gate_open:
  "(furthestZ kept > - 120 \<and> isLetterDue d n \<and> 0 \<le> random env 1 \<and> random env 1 < 1 \<longrightarrow>
    (((\<exists>i<6. i \<notin> set (collectedLetters env)) \<longrightarrow>
           length (fst (spawnLogic env d n kept u)) = 1
           \<and> type (hd (fst (spawnLogic env d n kept u))) = LETTER
           \<and> (\<exists>i. targetIndex (hd (fst (spawnLogic env d n kept u))) = Some i
                  \<and> i < 6 \<and> i \<notin> set (collectedLetters env))
           \<and> (\<forall>k < length (availableIndices env).
                 (targetIndex (hd (fst (spawnLogic env d n kept u))) = Some (availableIndices env ! k))
                 = (real k / real (length (availableIndices env)) \<le> random env 1
                    \<and> random env 1 < (real k + 1) / real (length (availableIndices env))))
           \<and> fst (snd (spawnLogic env d n kept u)) = n + getLetterInterval (level env))
       \<and> (\<not> (\<exists>i<6. i \<notin> set (collectedLetters env)) \<longrightarrow>
           length (fst (spawnLogic env d n kept u)) = 1
           \<and> type (hd (fst (spawnLogic env d n kept u))) = GEM
           \<and> points (hd (fst (spawnLogic env d n kept u))) = Some (50 + (real_of_int (level env) - 1) * 10)
           \<and> fst (snd (spawnLogic env d n kept u)) = n)
       \<and> set (availableIndices env) = {i. i < 6 \<and> i \<notin> set (collectedLetters env)}
       \<and> distinct (availableIndices env)
       \<and> getLetterInterval (level env) = 200 * (1 + (real_of_int (level env) - 1) * 0.4)))
   \<and> (\<not> furthestZ kept > - 120 \<longrightarrow>
        fst (spawnLogic env d n kept u) = [] \<and> fst (snd (spawnLogic env d n kept u)) = n)"
proof -
  have closed: "\<not> furthestZ kept > - 120 \<longrightarrow>
        fst (spawnLogic env d n kept u) = [] \<and> fst (snd (spawnLogic env d n kept u)) = n"
    using spawn_gated[of kept env d n u] by (simp add: SPAWN_DISTANCE_def)
  from letter_due_open_gate[of kept d n env u] closed show ?thesis by blast
qed

text \<open>
  Instances: with the gate open, a letter due and nothing collected, a Letter is spawned and
  the threshold moves from 200 to 400 at level 1; with all six indices collected, a Gem worth
  50 is spawned; with the only entity 130 units ahead the gate is closed, nothing is spawned
  and the threshold stays at 200.
\<close>

theorem C4_witness:
  "furthestZ [] > - 120 \<and> isLetterDue 250 200 \<and> 0 \<le> random env0 1 \<and> random env0 1 < 1
   \<and> (\<exists>i<6. i \<notin> set (collectedLetters env0))
   \<and> type (hd (fst (spawnLogic env0 250 200 [] 0))) = LETTER
   \<and> 0 < length (availableIndices env0)
   \<and> targetIndex (hd (fst (spawnLogic env0 250 200 [] 0))) = Some 0
   \<and> fst (snd (spawnLogic env0 250 200 [] 0)) = 400
   \<and> 0 \<le> random envAll 1 \<and> random envAll 1 < 1
   \<and> \<not> (\<exists>i<6. i \<notin> set (collectedLetters envAll))
   \<and> type (hd (fst (spawnLogic envAll 250 200 [] 0))) = GEM
   \<and> points (hd (fst (spawnLogic envAll 250 200 [] 0))) = Some 50
   \<and> \<not> furthestZ [obstacleFar] > - 120
   \<and> fst (spawnLogic env0 501 200 [obstacleFar] 0) = []
   \<and> fst (snd (spawnLogic env0 501 200 [obstacleFar] 0)) = 200"
proof -
  have far: "\<not> furthestZ [obstacleFar] > - 120" by (simp add: furthestZ_single)
  from C4_letter_due_when_spawn_gate_open[of "[obstacleFar]" 501 200 env0 0] far
  have cl: "fst (spawnLogic env0 501 200 [obstacleFar] 0) = []"
    "fst (snd (spawnLogic env0 501 200 [obstacleFar] 0)) = 200"
    by simp_all
  have g: "furthestZ [] > - 120" by (simp add: furthestZ_empty)
  have d: "isLetterDue 250 200" by (simp add: isLetterDue_def)
  have r: "0 \<le> random env0 1" "random env0 1 < 1" by simp_all
  have r': "0 \<le> random envAll 1" "random envAll 1 < 1" by simp_all
  have some: "\<exists>i<6. i \<notin> set (collectedLetters env0)" by (simp add: exI[of _ 0])
  have none: "\<not> (\<exists>i<6. i \<notin> set (collectedLetters envAll))"
  proof
    assume "\<exists>i<6. i \<notin> set (collectedLetters envAll)"
    then obtain i :: nat where "i < 6" "i \<notin> {0, 1, 2, 3, 4, 5}" by auto
    then show False by auto
  qed
  from C4_letter_due_when_spawn_gate_open[of "[]" 250 200 env0 0] g d r some
  have a: "type (hd (fst (spawnLogic env0 250 200 [] 0))) = LETTER"
    and b: "fst (snd (spawnLogic env0 250 200 [] 0)) = 400"
    and uni: "\<forall>k < length (availableIndices env0).
                 (targetIndex (hd (fst (spawnLogic env0 250 200 [] 0))) = Some (availableIndices env0 ! k))
                 = (real k / real (length (availableIndices env0)) \<le> random env0 1
                    \<and> random env0 1 < (real k + 1) / real (length (availableIndices env0)))"
    by (simp_all add: getLetterInterval_def BASE_LETTER_INTERVAL_def)
  have len: "0 < length (availableIndices env0)" by (simp add: availableIndices_env0)
  from uni len have "(targetIndex (hd (fst (spawnLogic env0 250 200 [] 0))) = Some (availableIndices env0 ! 0))
                 = (real 0 / real (length (availableIndices env0)) \<le> random env0 1
                    \<and> random env0 1 < (real 0 + 1) / real (length (availableIndices env0)))"
    by blast
  then have first: "targetIndex (hd (fst (spawnLogic env0 250 200 [] 0))) = Some 0"
    by (simp add: availableIndices_env0)
  from C4_letter_due_when_spawn_gate_open[of "[]" 250 200 envAll 0] g d r' none
  have c: "type (hd (fst (spawnLogic envAll 250 200 [] 0))) = GEM"
    and e: "points (hd (fst (spawnLogic envAll 250 200 [] 0))) = Some 50"
    by simp_all
  from g d r r' some none a b c e len first far cl show ?thesis by blast
qed

text \<open>
  Against the claim as stated: the only entity is an obstacle 130 units ahead, the distance
  travelled (501) has passed the threshold (200) and no letter is collected; the tick spawns
  nothing and leaves the threshold at 200.
\<close>

theorem C4_counterexample:
  "isLetterDue (distanceTraveled simFar + dist env0) (nextLetterDistance simFar)
   \<and> 0 \<notin> set (collectedLetters env0)
   \<and> objects (fst (tick env0 simFar)) = [obstacleFar\<lparr>position := (0, 0.8, - 129)\<rparr>]
   \<and> nextLetterDistance (fst (tick env0 simFar)) = 200"
proof -
  have sp: "spawnLogic env0 501 200 [obstacleFar\<lparr>position := (0, y, - 129)\<rparr>] 0 = ([], 200, False)" for y
    by (rule spawn_gated) (simp add: furthestZ_single SPAWN_DISTANCE_def)
  have t: "tick env0 simFar =
     (\<lparr> objects = [obstacleFar\<lparr>position := (0, 0.8, - 129)\<rparr>], distanceTraveled = 501,
        nextLetterDistance = 200 \<rparr>, [])"
    by (simp add: tick_alt updateLoop_init simFar_def loopSteps_single step_obstacleFar sp Let_def)
  have d: "isLetterDue (distanceTraveled simFar + dist env0) (nextLetterDistance simFar)"
    by (simp add: simFar_def isLetterDue_def)
  from d show ?thesis unfolding t by simp
qed

text \<open>
  Claim C5.  A turret or an alien fires at most once in a whole run: over any sequence of
  ticks an entity fires at most one missile; the flag \<^verbatim>\<open>hasFired\<close> is set when it fires and
  no tick clears it, and with the flag set it never fires.  It fires only on a tick where
  its forward coordinate after the movement is greater than - 80 (turret) or - 90 (alien).
  Firing pushes exactly one active Missile at the firer's lane coordinate, two units further
  along the forward axis, and dispatches exactly one visual-effect event; a tick in which it
  does not fire dispatches none and leaves the flag as it was.
\<close>

theorem C5_turret_and_alien_fire_once:
  "length (missilesFired ts obj) \<le> 1
   \<and> (hasFired obj = Some True \<longrightarrow>
        missilesFired ts obj = [] \<and> s_spawns (updateObject env u obj) = []
        \<and> hasFired (s_obj (updateObject env u obj)) = Some True)
   \<and> (s_spawns (updateObject env u obj) \<noteq> [] \<longrightarrow>
        active obj \<and> hasFired obj \<noteq> Some True
        \<and> (type obj = TURRET \<and> pos2 (cur env obj) > - 80 \<or> type obj = ALIEN \<and> pos2 (cur env obj) > - 90)
        \<and> hasFired (s_obj (updateObject env u obj)) = Some True
        \<and> length (s_spawns (updateObject env u obj)) = 1
        \<and> type (hd (s_spawns (updateObject env u obj))) = MISSILE
        \<and> active (hd (s_spawns (updateObject env u obj)))
        \<and> pos0 (hd (s_spawns (updateObject env u obj))) = pos0 (cur env obj)
        \<and> pos2 (hd (s_spawns (updateObject env u obj))) = pos2 (cur env obj) + 2
        \<and> snd (snd (behaviours env u obj)) =
             [ParticleBurst (position (cur env obj)) (if type obj = TURRET then ''#ffaa00'' else ''#ff00ff'')])
   \<and> (s_spawns (updateObject env u obj) = [] \<longrightarrow>
        snd (snd (behaviours env u obj)) = [] \<and> hasFired (s_obj (updateObject env u obj)) = hasFired obj)"
proof -
  have a: "hasFired obj = Some True \<longrightarrow>
        missilesFired ts obj = [] \<and> s_spawns (updateObject env u obj) = []
        \<and> hasFired (s_obj (updateObject env u obj)) = Some True"
    using fired_trajectory[of obj ts] fired_step[of obj env u] by blast
  have b: "s_spawns (updateObject env u obj) \<noteq> [] \<longrightarrow>
        active obj \<and> hasFired obj \<noteq> Some True
        \<and> (type obj = TURRET \<and> pos2 (cur env obj) > - 80 \<or> type obj = ALIEN \<and> pos2 (cur env obj) > - 90)
        \<and> hasFired (s_obj (updateObject env u obj)) = Some True
        \<and> length (s_spawns (updateObject env u obj)) = 1
        \<and> type (hd (s_spawns (updateObject env u obj))) = MISSILE
        \<and> active (hd (s_spawns (updateObject env u obj)))
        \<and> pos0 (hd (s_spawns (updateObject env u obj))) = pos0 (cur env obj)
        \<and> pos2 (hd (s_spawns (updateObject env u obj))) = pos2 (cur env obj) + 2
        \<and> snd (snd (behaviours env u obj)) =
             [ParticleBurst (position (cur env obj)) (if type obj = TURRET then ''#ffaa00'' else ''#ff00ff'')]"
  proof
    assume ne: "s_spawns (updateObject env u obj) \<noteq> []"
    note f = firing_step(1)[OF ne]
    from f have g: "active obj \<and> hasFired obj \<noteq> Some True
        \<and> (type obj = TURRET \<and> pos2 (cur env obj) > - 80 \<or> type obj = ALIEN \<and> pos2 (cur env obj) > - 90)"
      by (simp add: fires_def)
    with firing_step(2,3)[OF ne] show "active obj \<and> hasFired obj \<noteq> Some True
        \<and> (type obj = TURRET \<and> pos2 (cur env obj) > - 80 \<or> type obj = ALIEN \<and> pos2 (cur env obj) > - 90)
        \<and> hasFired (s_obj (updateObject env u obj)) = Some True
        \<and> length (s_spawns (updateObject env u obj)) = 1
        \<and> type (hd (s_spawns (updateObject env u obj))) = MISSILE
        \<and> active (hd (s_spawns (updateObject env u obj)))
        \<and> pos0 (hd (s_spawns (updateObject env u obj))) = pos0 (cur env obj)
        \<and> pos2 (hd (s_spawns (updateObject env u obj))) = pos2 (cur env obj) + 2
        \<and> snd (snd (behaviours env u obj)) =
             [ParticleBurst (position (cur env obj)) (if type obj = TURRET then ''#ffaa00'' else ''#ff00ff'')]"
      by (simp add: s_spawns_updateObject behaviours_fires[OF f])
  qed
  have c: "s_spawns (updateObject env u obj) = [] \<longrightarrow>
        snd (snd (behaviours env u obj)) = [] \<and> hasFired (s_obj (updateObject env u obj)) = hasFired obj"
  proof
    assume "s_spawns (updateObject env u obj) = []"
    then have "\<not> fires env obj" using spawns_iff_fires[of env u obj] by (simp add: s_spawns_updateObject)
    then show "snd (snd (behaviours env u obj)) = [] \<and> hasFired (s_obj (updateObject env u obj)) = hasFired obj"
      by (simp add: s_obj_updateObject behaviours_quiet)
  qed
  from at_most_one[of ts obj] a b c show ?thesis by blast
qed

text \<open>
  Instances: the turret at - 80.5 crosses - 80 in one tick and fires; afterwards its flag is
  set and a further tick fires nothing.  The obstacle fires nothing.
\<close>

theorem C5_witness:
  "s_spawns (updateObject env0 0 turret0) \<noteq> []
   \<and> pos2 (cur env0 turret0) > - 80
   \<and> hasFired (s_obj (updateObject env0 0 turret0)) = Some True
   \<and> missilesFired [(env0, 1)] (s_obj (updateObject env0 0 turret0)) = []
   \<and> s_spawns (updateObject env0 0 obstacle0) = []
   \<and> snd (snd (behaviours env0 0 obstacle0)) = []"
proof -
  have ne: "s_spawns (updateObject env0 0 turret0) \<noteq> []"
    by (simp add: s_spawns_updateObject spawns_iff_fires fires_turret0)
  have q: "s_spawns (updateObject env0 0 obstacle0) = []" by (simp add: step_obstacle0)
  from C5_turret_and_alien_fire_once[of "[]" turret0 env0 0] ne
  have f: "hasFired (s_obj (updateObject env0 0 turret0)) = Some True" and z: "pos2 (cur env0 turret0) > - 80"
    by simp_all
  from C5_turret_and_alien_fire_once[of "[(env0, 1)]" "s_obj (updateObject env0 0 turret0)" env0 0] f
  have n: "missilesFired [(env0, 1)] (s_obj (updateObject env0 0 turret0)) = []" by simp
  from C5_turret_and_alien_fire_once[of "[]" obstacle0 env0 0] q
  have e: "snd (snd (behaviours env0 0 obstacle0)) = []" by simp
  from ne z f n q e show ?thesis by simp
qed

text \<open>
  Claim C6.  On a tick with the magnet timer active, for an active Gem whose distance to the
  player in the lane/forward plane (after this tick's uniform advance) is below 40: the lane
  and forward coordinates move toward the player's by the fraction \<open>dt * 10\<close> of the
  remaining difference, and the vertical coordinate is interpolated toward the player's at
  the same rate (\<open>dt\<close> is the frame delta clamped to 0.05, so the fraction is at most a
  half: an interpolation, never a snap); at distance 40 or more the gem only advances with
  the world.  When time has elapsed (\<open>0 < dt\<close>) and the gem is not already
  on the player's lane coordinate, the lane coordinate ends strictly closer to the player's.
  Entities that are not gems are left unchanged by the magnet block, and their position
  after the tick does not depend on it.
\<close>

theorem C6_magnet_pull_is_a_lerp_on_near_gems:
  "(type obj = GEM \<and> active obj \<and> isMagnetActive env \<longrightarrow>
      position (s_obj (updateObject env u obj)) =
        (if sqrt ((vx (playerPos env) - pos0 obj) * (vx (playerPos env) - pos0 obj)
                + (vz (playerPos env) - (pos2 obj + dist env)) * (vz (playerPos env) - (pos2 obj + dist env))) < 40
         then (pos0 obj + (vx (playerPos env) - pos0 obj) * (safeDelta env * 10),
               pos1 obj + (vy (playerPos env) - pos1 obj) * (safeDelta env * 10),
               pos2 obj + dist env + (vz (playerPos env) - (pos2 obj + dist env)) * (safeDelta env * 10))
         else (pos0 obj, pos1 obj, pos2 obj + dist env)))
   \<and> (type obj = GEM \<and> active obj \<and> isMagnetActive env \<and> 0 < delta env
       \<and> sqrt ((vx (playerPos env) - pos0 obj) * (vx (playerPos env) - pos0 obj)
                + (vz (playerPos env) - (pos2 obj + dist env)) * (vz (playerPos env) - (pos2 obj + dist env))) < 40
       \<and> pos0 obj \<noteq> vx (playerPos env) \<longrightarrow>
      \<bar>vx (playerPos env) - pos0 (s_obj (updateObject env u obj))\<bar> < \<bar>vx (playerPos env) - pos0 obj\<bar>)
   \<and> (type obj \<noteq> GEM \<longrightarrow> magnetLogic env obj = obj)
   \<and> (type obj \<noteq> GEM \<longrightarrow>
        position (s_obj (updateObject env u obj))
        = position (barrierLogic env (droneLogic env (standardMovement env obj))))
   \<and> safeDelta env * 10 \<le> 0.5"
proof -
  let ?near = "sqrt ((vx (playerPos env) - pos0 obj) * (vx (playerPos env) - pos0 obj)
                + (vz (playerPos env) - (pos2 obj + dist env)) * (vz (playerPos env) - (pos2 obj + dist env))) < 40"
  have a: "type obj = GEM \<and> active obj \<and> isMagnetActive env \<longrightarrow>
      position (s_obj (updateObject env u obj)) =
        (if ?near
         then (pos0 obj + (vx (playerPos env) - pos0 obj) * (safeDelta env * 10),
               pos1 obj + (vy (playerPos env) - pos1 obj) * (safeDelta env * 10),
               pos2 obj + dist env + (vz (playerPos env) - (pos2 obj + dist env)) * (safeDelta env * 10))
         else (pos0 obj, pos1 obj, pos2 obj + dist env))"
    by (simp add: gem_step)
  have b: "type obj = GEM \<and> active obj \<and> isMagnetActive env \<and> 0 < delta env \<and> ?near
       \<and> pos0 obj \<noteq> vx (playerPos env) \<longrightarrow>
      \<bar>vx (playerPos env) - pos0 (s_obj (updateObject env u obj))\<bar> < \<bar>vx (playerPos env) - pos0 obj\<bar>"
  proof
    assume h: "type obj = GEM \<and> active obj \<and> isMagnetActive env \<and> 0 < delta env \<and> ?near
       \<and> pos0 obj \<noteq> vx (playerPos env)"
    let ?d = "vx (playerPos env) - pos0 obj"
    let ?t = "safeDelta env * 10"
    from h safeDelta_bounds[of env] have t: "0 < ?t" "?t \<le> 1" by simp_all
    from h have d: "?d \<noteq> 0" by simp
    from h have "pos0 (s_obj (updateObject env u obj)) = pos0 obj + ?d * ?t"
      by (simp add: gem_step)
    then have "vx (playerPos env) - pos0 (s_obj (updateObject env u obj)) = ?d - ?d * ?t"
      by simp
    with shrink[OF t d]
    show "\<bar>vx (playerPos env) - pos0 (s_obj (updateObject env u obj))\<bar> < \<bar>vx (playerPos env) - pos0 obj\<bar>"
      by simp
  qed
  have c: "type obj \<noteq> GEM \<longrightarrow> magnetLogic env obj = obj"
    by (simp add: magnet_only_gems)
  have d: "type obj \<noteq> GEM \<longrightarrow>
        position (s_obj (updateObject env u obj))
        = position (barrierLogic env (droneLogic env (standardMovement env obj)))"
    by (simp add: nongem_step_no_magnet)
  have e: "safeDelta env * 10 \<le> 0.5" by (simp add: safeDelta_def)
  from a b c d e show ?thesis by blast
qed

text \<open>
  An instance: with the magnet active and the player at the origin, the gem at lateral
  distance 35 moves half of the way in one tick of 0.05 s, from 35 to 17.5; the obstacle is
  left alone by the magnet block.
\<close>

theorem C6_witness:
  "type gem0 = GEM \<and> active gem0 \<and> isMagnetActive envMagnet \<and> 0 < delta envMagnet
   \<and> \<bar>vx (playerPos envMagnet) - pos0 gem0\<bar> = 35
   \<and> sqrt ((vx (playerPos envMagnet) - pos0 gem0) * (vx (playerPos envMagnet) - pos0 gem0)
         + (vz (playerPos envMagnet) - (pos2 gem0 + dist envMagnet))
           * (vz (playerPos envMagnet) - (pos2 gem0 + dist envMagnet))) < 40
   \<and> position (s_obj (updateObject envMagnet 0 gem0)) = (17.5, 0.6, 0)
   \<and> \<bar>vx (playerPos envMagnet) - pos0 (s_obj (updateObject envMagnet 0 gem0))\<bar>
       < \<bar>vx (playerPos envMagnet) - pos0 gem0\<bar>
   \<and> type obstacle0 \<noteq> GEM \<and> magnetLogic envMagnet obstacle0 = obstacle0"
proof -
  note n = near_gem0
  from C6_magnet_pull_is_a_lerp_on_near_gems[of gem0 envMagnet 0] n
  have p: "position (s_obj (updateObject envMagnet 0 gem0)) = (17.5, 0.6, 0)"
    and q: "\<bar>vx (playerPos envMagnet) - pos0 (s_obj (updateObject envMagnet 0 gem0))\<bar>
       < \<bar>vx (playerPos envMagnet) - pos0 gem0\<bar>"
    by simp_all
  from C6_magnet_pull_is_a_lerp_on_near_gems[of obstacle0 envMagnet 0]
  have r: "magnetLogic envMagnet obstacle0 = obstacle0" by simp
  from n p q r show ?thesis by simp
qed

text \<open>
  Claim C7.  As stated: an active drone's lane coordinate is interpolated toward the player's
  at rate \<open>dt * 1.5\<close> only while the drone's forward coordinate is ahead of the player by
  more than 5 units, and otherwise does not change; in particular, for a drone at forward
  coordinate - 10 with the player at forward coordinate 0, tracking is disabled and the lane
  coordinate does not change.

  The test is \<^verbatim>\<open>obj.position[2] < playerPos.z - 5\<close>, and more negative is farther ahead: a
  drone at - 10 is 10 units ahead of a player at 0, so it is tracking.  What holds: the
  general rule of the claim, and for the drone at - 10 the opposite of the scenario: its lane
  coordinate moves toward the player's by the fraction \<open>dt * 1.5\<close>; the lane coordinate
  stays when the drone is at most 5 units ahead (forward coordinate at least the player's - 5).
\<close>

theorem C7_drone_tracks_while_more_than_five_ahead:
  "type obj = DRONE \<longrightarrow>
     position (s_obj (updateObject env u obj)) =
       (if active obj \<and> pos2 obj + dist env < vz (playerPos env) - 5
        then (pos0 obj + (vx (playerPos env) - pos0 obj) * (safeDelta env * 1.5), pos1 obj, pos2 obj + dist env)
        else (pos0 obj, pos1 obj, pos2 obj + dist env))
     \<and> (active obj \<and> pos2 obj + dist env = - 10 \<and> vz (playerPos env) = 0 \<longrightarrow>
          pos0 (s_obj (updateObject env u obj))
          = pos0 obj + (vx (playerPos env) - pos0 obj) * (safeDelta env * 1.5))
     \<and> (pos2 obj + dist env \<ge> vz (playerPos env) - 5 \<longrightarrow>
          pos0 (s_obj (updateObject env u obj)) = pos0 obj)"
  by (simp add: drone_step)

text \<open>
  Instances: the drone that reaches forward coordinate - 10 in lane coordinate 2.2 moves to
  2.035 in a tick of 0.05 s; the drone that reaches - 3 keeps its lane coordinate.
\<close>

theorem C7_witness:
  "type drone0 = DRONE \<and> active drone0 \<and> pos2 drone0 + dist env0 = - 10 \<and> vz (playerPos env0) = 0
   \<and> position (s_obj (updateObject env0 0 drone0)) = (2.035, 1.5, - 10)
   \<and> type drone2 = DRONE \<and> pos2 drone2 + dist env0 \<ge> vz (playerPos env0) - 5
   \<and> pos0 (s_obj (updateObject env0 0 drone2)) = pos0 drone2"
  using C7_drone_tracks_while_more_than_five_ahead[of drone0 env0 0]
        C7_drone_tracks_while_more_than_five_ahead[of drone2 env0 0]
  by simp

text \<open>
  Against the scenario of the claim: with the player at forward coordinate 0, the lane
  coordinate changes both for the drone that is at - 10 after this tick's movement and for the
  drone that was at - 10 before it.
\<close>

theorem C7_counterexample:
  "type drone0 = DRONE \<and> active drone0 \<and> vz (playerPos env0) = 0
   \<and> pos2 (s_obj (updateObject env0 0 drone0)) = - 10
   \<and> pos0 (s_obj (updateObject env0 0 drone0)) \<noteq> pos0 drone0
   \<and> type drone1 = DRONE \<and> active drone1 \<and> pos2 drone1 = - 10
   \<and> pos0 (s_obj (updateObject env0 0 drone1)) \<noteq> pos0 drone1"
  by (simp add: drone_step)




text \<open>
  Claim C9.  As stated: on a tick where the player object is not yet resolved, the tick
  performs no collision processing, deactivates nothing by collision and emits no damage,
  pickup or shop signal.

  The tick starts from \<^verbatim>\<open>new THREE.Vector3(0, 0, 0)\<close> and overwrites it only when the
  reference is set, and the collision code runs unconditionally.  What holds: a tick without
  a player object is, in its whole result and in its events, the tick of a player standing
  at the origin.
\<close>

theorem C9_no_player_object_means_player_at_origin:
  "tick (env\<lparr>playerObj := None\<rparr>) sim = tick (env\<lparr>playerObj := Some (0, 0, 0)\<rparr>) sim"
  by (rule tick_no_player)

text \<open>
  Against the claim as stated: with no player object, the obstacle one unit ahead in the
  centre lane is hit; the damage signal and the destruction effect are emitted and the
  obstacle is deactivated.
\<close>

theorem C9_counterexample:
  "playerObj envNoPlayer = None
   \<and> active (hd (objects sim0))
   \<and> snd (tick envNoPlayer sim0) = [PlayerHit, ParticleBurst (0, 0.8, 0) ''#ff4400'']
   \<and> \<not> active (hd (objects (fst (tick envNoPlayer sim0))))"
proof -
  have e: "env0\<lparr>playerObj := Some (0, 0, 0)\<rparr> = env0" by (simp add: env0_def)
  have "tick envNoPlayer sim0 = tick env0 sim0"
    by (simp add: envNoPlayer_def tick_no_player e)
  moreover have "playerObj envNoPlayer = None" by (simp add: envNoPlayer_def)
  moreover have "active (hd (objects sim0))" by (simp add: sim0_def)
  ultimately show ?thesis by (simp add: tick_sim0)
qed

text \<open>
  Claim C10.  A missile fired by a turret or an alien during a tick is pushed on
  \<^verbatim>\<open>newSpawns\<close> and appended to the registry after the loop: it is in the registry after the
  tick, active and at the position it was created at (the firer's lane coordinate, height
  0.8 or 1.0, the firer's forward coordinate + 2), so it has not advanced; the loop ran one
  iteration per entity of the registry at the start of the tick and every event of the tick
  comes from one of those iterations, so the missile was not collision-checked and damaged
  nobody.  In a following tick it is an entity like any other: it advances by the world
  distance plus the missile speed, and it is deactivated exactly when the collision rule of
  a damage source applies.
\<close>

theorem C10_fired_missile_waits_for_the_next_tick:
  assumes "status env = PLAYING"
    and "m \<in> set (newSpawns (updateLoop env (objects sim) loopInit))"
  shows "m \<in> set (objects (fst (tick env sim)))
   \<and> type m = MISSILE \<and> active m
   \<and> (\<exists>ob \<in> set (objects sim). fires env ob
         \<and> position m = (pos0 (cur env ob), if type ob = TURRET then 0.8 else 1.0, pos2 (cur env ob) + 2))
   \<and> keptObjects (updateLoop env (objects sim) loopInit) @ newSpawns (updateLoop env (objects sim) loopInit)
       = map s_obj (filter s_keep (loopSteps env (objects sim) 0))
         @ concat (map s_spawns (loopSteps env (objects sim) 0))
   \<and> length (loopSteps env (objects sim) 0) = length (objects sim)
   \<and> snd (tick env sim) = concat (map s_events (loopSteps env (objects sim) 0))
   \<and> (\<forall>e \<in> set (snd (tick env sim)). \<exists>ob \<in> set (objects sim). \<exists>v. e \<in> set (s_events (updateObject env v ob)))
   \<and> pos2 (s_obj (updateObject env' u' m)) = pos2 m + dist env' + MISSILE_SPEED * safeDelta env'
   \<and> (\<not> active (s_obj (updateObject env' u' m))) = spec_hit (playerPos env') (pos2 m) (cur env' m)"
proof -
  let ?st = "updateLoop env (objects sim) loopInit"
  have ch: "hasChanges ?st" by (rule spawns_set_changes[OF assms(2)])
  have a: "m \<in> set (objects (fst (tick env sim)))"
    using assms(2) by (simp add: tick_objects_changed[OF assms(1) ch])
  from spawned_missile[OF assms(2)] obtain ob v where ob: "ob \<in> set (objects sim)" "fires env ob"
    "m = missile (uuidv4 env v)
           (pos0 (cur env ob), if type ob = TURRET then 0.8 else 1.0, pos2 (cur env ob) + 2)
           (if type ob = TURRET then ''#ffaa00'' else ''#ff0000'')"
    by blast
  from ob(3) have ty: "type m = MISSILE" and ac: "active m"
    and po: "position m = (pos0 (cur env ob), if type ob = TURRET then 0.8 else 1.0, pos2 (cur env ob) + 2)"
    by simp_all
  from ob(1,2) po have b: "\<exists>ob \<in> set (objects sim). fires env ob
         \<and> position m = (pos0 (cur env ob), if type ob = TURRET then 0.8 else 1.0, pos2 (cur env ob) + 2)"
    by blast
  have c: "keptObjects ?st @ newSpawns ?st
       = map s_obj (filter s_keep (loopSteps env (objects sim) 0))
         @ concat (map s_spawns (loopSteps env (objects sim) 0))"
    by (simp add: updateLoop_init)
  have ev: "snd (tick env sim) = concat (map s_events (loopSteps env (objects sim) 0))"
    by (rule tick_events[OF assms(1)])
  have ev': "\<forall>e \<in> set (snd (tick env sim)). \<exists>ob \<in> set (objects sim). \<exists>v. e \<in> set (s_events (updateObject env v ob))"
  proof
    fix e assume "e \<in> set (snd (tick env sim))"
    then obtain r where r: "r \<in> set (loopSteps env (objects sim) 0)" "e \<in> set (s_events r)"
      by (auto simp add: ev)
    from loopSteps_mem[OF r(1)] r(2)
    show "\<exists>ob \<in> set (objects sim). \<exists>v. e \<in> set (s_events (updateObject env v ob))" by blast
  qed
  have mv: "pos2 (s_obj (updateObject env' u' m)) = pos2 m + dist env' + MISSILE_SPEED * safeDelta env'"
    using missile_moves[OF ty, of env'] by (simp add: position_step)
  have dm: "isDamageSource (type m)" by (simp add: ty isDamageSource_def)
  note hit = damage_step(1)[OF ac dm, of env' u']
  from a ty ac b c loopSteps_length[of env "objects sim" 0] ev ev' mv hit show ?thesis by blast
qed

text \<open>
  An instance: the missile of the turret that fires at - 79.5 is in the registry after the
  tick at - 77.5, the turret's effect event is among the events of the tick, and a following
  tick moves the missile to - 75.
\<close>

theorem C10_witness:
  "status env0 = PLAYING
   \<and> missile ''id'' (2.2, 0.8, - 77.5) ''#ffaa00'' \<in> set (newSpawns (updateLoop env0 (objects simTurret) loopInit))
   \<and> missile ''id'' (2.2, 0.8, - 77.5) ''#ffaa00'' \<in> set (objects (fst (tick env0 simTurret)))
   \<and> ParticleBurst (2.2, 0.2, - 79.5) ''#ffaa00'' \<in> set (snd (tick env0 simTurret))
   \<and> ParticleBurst (2.2, 0.2, - 79.5) ''#ffaa00'' \<in> set (s_events (updateObject env0 0 turret0))
   \<and> pos2 (s_obj (updateObject env0 0 (missile ''id'' (2.2, 0.8, - 77.5) ''#ffaa00''))) = - 75"
proof -
  have s: "status env0 = PLAYING" by simp
  have m: "missile ''id'' (2.2, 0.8, - 77.5) ''#ffaa00'' \<in> set (newSpawns (updateLoop env0 (objects simTurret) loopInit))"
    by (simp add: updateLoop_init simTurret_def loopSteps_single step_turret0)
  note t = C10_fired_missile_waits_for_the_next_tick[OF s m, of env0 0]
  from t have ev: "snd (tick env0 simTurret) = concat (map s_events (loopSteps env0 (objects simTurret) 0))"
    by blast
  have e: "ParticleBurst (2.2, 0.2, - 79.5) ''#ffaa00'' \<in> set (snd (tick env0 simTurret))"
    unfolding ev using events_turret0 by (simp add: simTurret_def loopSteps_single)
  from t s m e events_turret0 show ?thesis by (simp add: MISSILE_SPEED_def)
qed

end
